theory Spec2Isabelle
  imports Complex_Main "HOL-Library.Log_Nat"
begin

section \<open>Tensors\<close>

text \<open>
  The models of \<^verbatim>\<open>divmachines/models/__init__.py\<close> are written against the tensor
  type of the array library. A tensor is a shape together with its elements in row-major
  order; the element type is left open, so that the same definitions run on exact numbers
  and on rounded ones.
\<close>

datatype 'a tensor = Tensor (tshape: "nat list") (tdata: "'a list")

definition wf_tensor :: "'a tensor \<Rightarrow> bool" where
  "wf_tensor t \<longleftrightarrow> length (tdata t) = prod_list (tshape t)"

text \<open>The two exceptions the array operations raise.\<close>

datatype error = RuntimeError | IndexError

definition bind_err :: "error + 'a \<Rightarrow> ('a \<Rightarrow> error + 'b) \<Rightarrow> error + 'b" where
  "bind_err r f = (case r of Inl e \<Rightarrow> Inl e | Inr a \<Rightarrow> f a)"

text \<open>A reduction adds the elements one after the other, starting from zero.\<close>

definition sum_seq :: "'a::{zero,plus} list \<Rightarrow> 'a" where
  "sum_seq xs = foldl (+) 0 xs"

text \<open>\<^verbatim>\<open>t.squeeze()\<close>: every axis of size one is removed.\<close>

definition squeeze :: "'a tensor \<Rightarrow> 'a tensor" where
  "squeeze t = Tensor (filter (\<lambda>d. d \<noteq> 1) (tshape t)) (tdata t)"

text \<open>\<^verbatim>\<open>t.unsqueeze(-1)\<close>: a new last axis of size one.\<close>

definition unsqueeze_last :: "'a tensor \<Rightarrow> 'a tensor" where
  "unsqueeze_last t = Tensor (tshape t @ [1]) (tdata t)"

text \<open>\<^verbatim>\<open>torch.pow(t, 2)\<close>: the element-wise square.\<close>

definition pow2 :: "'a::times tensor \<Rightarrow> 'a tensor" where
  "pow2 t = Tensor (tshape t) (map (\<lambda>a. a * a) (tdata t))"

text \<open>\<^verbatim>\<open>c * t\<close> for a number \<open>c\<close>.\<close>

definition scale :: "'a::times \<Rightarrow> 'a tensor \<Rightarrow> 'a tensor" where
  "scale c t = Tensor (tshape t) (map (\<lambda>a. c * a) (tdata t))"

text \<open>
  \<^verbatim>\<open>torch.mm(a, b)\<close>: both arguments must be matrices whose inner sizes agree;
  anything else raises.
\<close>

definition mm :: "'a::{zero,plus,times} tensor \<Rightarrow> 'a tensor \<Rightarrow> error + 'a tensor" where
  "mm a b =
     (if length (tshape a) = 2 \<and> length (tshape b) = 2 \<and> tshape a ! 1 = tshape b ! 0
      then let n = tshape a ! 0; m = tshape a ! 1; p = tshape b ! 1
           in Inr (Tensor [n, p]
                (map (\<lambda>q. sum_seq (map (\<lambda>j. tdata a ! ((q div p) * m + j) * tdata b ! (j * p + q mod p))
                                     [0..<m]))
                     [0..<n * p]))
      else Inl RuntimeError)"

text \<open>
  Broadcasting of two shapes: they are aligned at the last axis; two sizes are compatible
  when they are equal or one of them is one. The function works on the reversed shapes.
\<close>

fun bshape_rev :: "nat list \<Rightarrow> nat list \<Rightarrow> nat list option" where
  "bshape_rev [] ys = Some ys"
| "bshape_rev (x # xs) [] = Some (x # xs)"
| "bshape_rev (x # xs) (y # ys) =
     (if x = y \<or> y = 1 then map_option ((#) x) (bshape_rev xs ys)
      else if x = 1 then map_option ((#) y) (bshape_rev xs ys)
      else None)"

definition broadcast_shape :: "nat list \<Rightarrow> nat list \<Rightarrow> nat list option" where
  "broadcast_shape s1 s2 = map_option rev (bshape_rev (rev s1) (rev s2))"

text \<open>The multi-index of a row-major position, and back.\<close>

fun unravel :: "nat list \<Rightarrow> nat \<Rightarrow> nat list" where
  "unravel [] p = []"
| "unravel (d # ds) p = (p div prod_list ds) # unravel ds (p mod prod_list ds)"

text \<open>
  The position in an operand of shape \<open>s\<close> that a multi-index of the broadcast result
  reads: an axis of size one is read at index zero.
\<close>

fun ravel :: "nat list \<Rightarrow> nat list \<Rightarrow> nat" where
  "ravel (d # ds) (i # is) = (if d = 1 then 0 else i) * prod_list ds + ravel ds is"
| "ravel _ _ = 0"

definition bindex :: "nat list \<Rightarrow> nat list \<Rightarrow> nat" where
  "bindex s idx = ravel s (drop (length idx - length s) idx)"

text \<open>An element-wise binary operation (\<^verbatim>\<open>a * b\<close>, \<^verbatim>\<open>a + b\<close>, \<^verbatim>\<open>a - b\<close>) with broadcasting.\<close>

definition binop :: "('a \<Rightarrow> 'a \<Rightarrow> 'a) \<Rightarrow> 'a tensor \<Rightarrow> 'a tensor \<Rightarrow> error + 'a tensor" where
  "binop f a b =
     (case broadcast_shape (tshape a) (tshape b) of
        None \<Rightarrow> Inl RuntimeError
      | Some s \<Rightarrow>
          Inr (Tensor s
            (map (\<lambda>p. f (tdata a ! bindex (tshape a) (unravel s p))
                         (tdata b ! bindex (tshape b) (unravel s p)))
                 [0..<prod_list s])))"

definition tmul :: "'a::times tensor \<Rightarrow> 'a tensor \<Rightarrow> error + 'a tensor" where
  "tmul = binop (*)"

definition tadd :: "'a::plus tensor \<Rightarrow> 'a tensor \<Rightarrow> error + 'a tensor" where
  "tadd = binop (+)"

definition tsub :: "'a::minus tensor \<Rightarrow> 'a tensor \<Rightarrow> error + 'a tensor" where
  "tsub = binop (-)"

text \<open>\<^verbatim>\<open>t.sum(d)\<close>: the sum along axis \<open>d\<close>, which must exist.\<close>

definition sum_dim :: "nat \<Rightarrow> 'a::{zero,plus} tensor \<Rightarrow> error + 'a tensor" where
  "sum_dim d t =
     (if d < length (tshape t)
      then let s = tshape t; n = s ! d; inner = prod_list (drop (Suc d) s);
               s' = take d s @ drop (Suc d) s
           in Inr (Tensor s'
                (map (\<lambda>p. sum_seq (map (\<lambda>j. tdata t ! (((p div inner) * n + j) * inner + p mod inner))
                                     [0..<n]))
                     [0..<prod_list s']))
      else Inl IndexError)"

text \<open>\<^verbatim>\<open>t.sum()\<close>: the sum of all elements, a tensor without axes.\<close>

definition sum_all :: "'a::{zero,plus} tensor \<Rightarrow> 'a tensor" where
  "sum_all t = Tensor [] [sum_seq (tdata t)]"

section \<open>The second-order interaction module\<close>

record 'a second_order_interaction =
  batch_size :: "nat option"
  soi_n_features :: nat
  soi_n_factors :: nat
  v :: "'a tensor"

text \<open>
  \<^verbatim>\<open>SecondOrderInteraction.__init__\<close>: the random draws that fill \<open>v\<close> are an
  argument.
\<close>

definition soi_init :: "nat \<Rightarrow> nat \<Rightarrow> 'a list \<Rightarrow> 'a second_order_interaction" where
  "soi_init n_features n_factors draws =
     \<lparr>batch_size = None, soi_n_features = n_features, soi_n_factors = n_factors,
      v = Tensor [n_features, n_factors] draws\<rparr>"

definition half :: "'a::{one,plus,inverse}" where
  "half = 1 / (1 + 1)"

text \<open>
  \<^verbatim>\<open>SecondOrderInteraction.forward\<close>. The first statement stores the batch size in
  the module, and raises when \<open>x\<close> has no axis; the module is returned with the result.
\<close>

definition soi_forward ::
  "'a::{zero,one,plus,minus,times,inverse} second_order_interaction \<Rightarrow> 'a tensor \<Rightarrow>
     (error + 'a tensor) \<times> 'a second_order_interaction" where
  "soi_forward self x =
     (case tshape x of
        [] \<Rightarrow> (Inl IndexError, self)
      | b # _ \<Rightarrow>
          let self' = self\<lparr>batch_size := Some b\<rparr>;
              pow_x = pow2 x;
              pow_v = pow2 (v self')
          in (bind_err (mm x (v self')) (\<lambda>xv.
              let pow_sum = pow2 xv in
              bind_err (mm pow_x pow_v) (\<lambda>sum_pow.
              bind_err (tsub pow_sum sum_pow) (\<lambda>diff.
              bind_err (sum_dim 1 diff) (\<lambda>s.
              Inr (unsqueeze_last (scale half s)))))), self'))"

section \<open>The factorization machine\<close>

record 'a factorization_machine =
  fm_n_features :: nat
  fm_factors :: nat
  fm_linear :: "'a tensor"
  second_order :: "'a second_order_interaction"

text \<open>
  \<^verbatim>\<open>FactorizationMachine.__init__\<close>: the random draws for the linear weights and
  for the interaction matrix are arguments.
\<close>

definition fm_init :: "nat \<Rightarrow> nat \<Rightarrow> 'a list \<Rightarrow> 'a list \<Rightarrow> 'a factorization_machine" where
  "fm_init n_features n_factors linear_draws v_draws =
     \<lparr>fm_n_features = n_features, fm_factors = n_factors,
      fm_linear = Tensor [n_features] linear_draws,
      second_order = soi_init n_features n_factors v_draws\<rparr>"

text \<open>
  \<^verbatim>\<open>FactorizationMachine.forward\<close>. The linear term is computed first; the call of
  the interaction module follows and updates that module.
\<close>

definition fm_forward ::
  "'a::{zero,one,plus,minus,times,inverse} factorization_machine \<Rightarrow> 'a tensor \<Rightarrow>
     (error + 'a tensor) \<times> 'a factorization_machine" where
  "fm_forward self x =
     (case bind_err (tmul x (fm_linear self)) (\<lambda>xl.
           bind_err (sum_dim 1 xl) (\<lambda>s. Inr (unsqueeze_last s))) of
        Inl e \<Rightarrow> (Inl e, self)
      | Inr linear_term \<Rightarrow>
          let (r, so) = soi_forward (second_order self) x;
              self' = self\<lparr>second_order := so\<rparr>
          in (bind_err r (\<lambda>interaction. tadd linear_term interaction), self'))"

section \<open>The embedding-based factorization models\<close>

text \<open>
  Modelled from the spec: the lookup tables \<^verbatim>\<open>ScaledEmbedding\<close> and
  \<^verbatim>\<open>ZeroEmbedding\<close> of \<^verbatim>\<open>divmachines.models.layers\<close> are not among the sources.
  The specification describes them as lookup tables of shape (cardinality, width) whose
  forward operation gathers the row of each id, with ids outside [0, cardinality) left to
  the gather primitive, which raises. The result has the shape of the ids followed by the
  width of the table.
\<close>

definition embedding :: "'a tensor \<Rightarrow> int tensor \<Rightarrow> error + 'a tensor" where
  "embedding w ids =
     (let n = tshape w ! 0; k = tshape w ! 1
      in if list_all (\<lambda>i. 0 \<le> i \<and> i < int n) (tdata ids)
         then Inr (Tensor (tshape ids @ [k])
                (map (\<lambda>p. tdata w ! (nat (tdata ids ! (p div k)) * k + p mod k))
                     [0..<prod_list (tshape ids) * k]))
         else Inl IndexError)"

record 'a matrix_factorization_model =
  mf_n_users :: nat
  mf_n_items :: nat
  mf_n_factors :: nat
  mf_sparse :: bool
  mf_x :: "'a tensor"
  mf_y :: "'a tensor"
  user_biases :: "'a tensor"
  item_biases :: "'a tensor"

text \<open>
  \<^verbatim>\<open>MatrixFactorizationModel.__init__\<close>: the scaled random draws of the two factor
  tables are arguments; the bias tables have width one and start at zero.
\<close>

definition mf_init ::
  "nat \<Rightarrow> nat \<Rightarrow> nat \<Rightarrow> bool \<Rightarrow> 'a list \<Rightarrow> 'a list \<Rightarrow> 'a::zero matrix_factorization_model" where
  "mf_init n_users n_items n_factors sparse x_draws y_draws =
     \<lparr>mf_n_users = n_users, mf_n_items = n_items, mf_n_factors = n_factors,
      mf_sparse = sparse,
      mf_x = Tensor [n_users, n_factors] x_draws,
      mf_y = Tensor [n_items, n_factors] y_draws,
      user_biases = Tensor [n_users, 1] (replicate n_users 0),
      item_biases = Tensor [n_items, 1] (replicate n_items 0)\<rparr>"

text \<open>\<^verbatim>\<open>MatrixFactorizationModel.forward\<close>. Nothing is stored in the model.\<close>

definition mf_forward ::
  "'a::{zero,plus,times} matrix_factorization_model \<Rightarrow> int tensor \<Rightarrow> int tensor \<Rightarrow>
     (error + 'a tensor) \<times> 'a matrix_factorization_model" where
  "mf_forward self user_ids item_ids =
     (bind_err (embedding (user_biases self) user_ids) (\<lambda>ub.
      let user_bias = squeeze ub in
      bind_err (embedding (item_biases self) item_ids) (\<lambda>ib.
      let item_bias = squeeze ib in
      bind_err (tadd user_bias item_bias) (\<lambda>biases_sum.
      bind_err (embedding (mf_x self) user_ids) (\<lambda>xu.
      let users_batch = squeeze xu in
      bind_err (embedding (mf_y self) item_ids) (\<lambda>yi.
      let items_batch = squeeze yi in
      bind_err
        (if length (tshape users_batch) > 2
         then bind_err (tmul users_batch items_batch) (sum_dim 2)
         else if length (tshape users_batch) > 1
         then bind_err (tmul users_batch items_batch) (sum_dim 1)
         else bind_err (tmul users_batch items_batch) (\<lambda>t. Inr (sum_all t)))
        (\<lambda>dot. tadd biases_sum dot)))))),
      self)"

record 'a simple_matrix_factorization_model =
  smf_n_users :: nat
  smf_n_items :: nat
  smf_n_factors :: nat
  smf_sparse :: bool
  smf_x :: "'a tensor"
  smf_y :: "'a tensor"

definition smf_init ::
  "nat \<Rightarrow> nat \<Rightarrow> nat \<Rightarrow> bool \<Rightarrow> 'a list \<Rightarrow> 'a list \<Rightarrow> 'a simple_matrix_factorization_model" where
  "smf_init n_users n_items n_factors sparse x_draws y_draws =
     \<lparr>smf_n_users = n_users, smf_n_items = n_items, smf_n_factors = n_factors,
      smf_sparse = sparse,
      smf_x = Tensor [n_users, n_factors] x_draws,
      smf_y = Tensor [n_items, n_factors] y_draws\<rparr>"

text \<open>\<^verbatim>\<open>SimpleMatrixFactorizationModel.forward\<close>.\<close>

definition smf_forward ::
  "'a::{zero,plus,times} simple_matrix_factorization_model \<Rightarrow> int tensor \<Rightarrow> int tensor \<Rightarrow>
     (error + 'a tensor) \<times> 'a simple_matrix_factorization_model" where
  "smf_forward self user_ids item_ids =
     (bind_err (embedding (smf_x self) user_ids) (\<lambda>xu.
      let users_batch = squeeze xu in
      bind_err (embedding (smf_y self) item_ids) (\<lambda>yi.
      let items_batch = squeeze yi in
      if length (tshape users_batch) > 2
      then bind_err (tmul users_batch items_batch) (sum_dim 2)
      else if length (tshape users_batch) > 1
      then bind_err (tmul users_batch items_batch) (sum_dim 1)
      else bind_err (tmul users_batch items_batch) (\<lambda>t. Inr (sum_all t)))),
      self)"

section \<open>Model invariants\<close>

text \<open>
  The constructors create every parameter array once, with a fixed shape. The invariants
  below say so; the forward passes rely on them and keep them.
\<close>

definition soi_invariant :: "'a second_order_interaction \<Rightarrow> bool" where
  "soi_invariant self \<longleftrightarrow>
     tshape (v self) = [soi_n_features self, soi_n_factors self] \<and> wf_tensor (v self)"

definition fm_invariant :: "'a factorization_machine \<Rightarrow> bool" where
  "fm_invariant self \<longleftrightarrow>
     tshape (fm_linear self) = [fm_n_features self] \<and> wf_tensor (fm_linear self) \<and>
     soi_n_features (second_order self) = fm_n_features self \<and>
     soi_n_factors (second_order self) = fm_factors self \<and>
     soi_invariant (second_order self)"

definition mf_invariant :: "'a matrix_factorization_model \<Rightarrow> bool" where
  "mf_invariant self \<longleftrightarrow>
     tshape (mf_x self) = [mf_n_users self, mf_n_factors self] \<and> wf_tensor (mf_x self) \<and>
     tshape (mf_y self) = [mf_n_items self, mf_n_factors self] \<and> wf_tensor (mf_y self) \<and>
     tshape (user_biases self) = [mf_n_users self, 1] \<and> wf_tensor (user_biases self) \<and>
     tshape (item_biases self) = [mf_n_items self, 1] \<and> wf_tensor (item_biases self)"

definition smf_invariant :: "'a simple_matrix_factorization_model \<Rightarrow> bool" where
  "smf_invariant self \<longleftrightarrow>
     tshape (smf_x self) = [smf_n_users self, smf_n_factors self] \<and> wf_tensor (smf_x self) \<and>
     tshape (smf_y self) = [smf_n_items self, smf_n_factors self] \<and> wf_tensor (smf_y self)"

text \<open>All ids of a batch lie in the table.\<close>

definition ids_in_range :: "nat \<Rightarrow> int tensor \<Rightarrow> bool" where
  "ids_in_range n ids \<longleftrightarrow> list_all (\<lambda>i. 0 \<le> i \<and> i < int n) (tdata ids)"

section \<open>Reference formulations\<close>

text \<open>Entry \<open>(i, j)\<close> of a matrix.\<close>

definition at2 :: "'a tensor \<Rightarrow> nat \<Rightarrow> nat \<Rightarrow> 'a" where
  "at2 t i j = tdata t ! (i * (tshape t ! 1) + j)"

text \<open>
  What the interaction module computes for one sample, with the operations in the order in
  which the code performs them: \<open>xb\<close> is the sample, \<open>V\<close> the interaction matrix.
\<close>

definition interaction_row ::
  "nat \<Rightarrow> nat \<Rightarrow> (nat \<Rightarrow> 'a) \<Rightarrow> (nat \<Rightarrow> nat \<Rightarrow> 'a) \<Rightarrow> 'a::{zero,one,plus,minus,times,inverse}" where
  "interaction_row n k xb V =
     half * sum_seq (map (\<lambda>f. (sum_seq (map (\<lambda>i. xb i * V i f) [0..<n]) *
                                sum_seq (map (\<lambda>i. xb i * V i f) [0..<n]))
                              - sum_seq (map (\<lambda>i. (xb i * xb i) * (V i f * V i f)) [0..<n]))
                         [0..<k])"

text \<open>The linear term of the factorization machine for one sample.\<close>

definition linear_row :: "nat \<Rightarrow> (nat \<Rightarrow> 'a) \<Rightarrow> 'a tensor \<Rightarrow> 'a::{zero,plus,times}" where
  "linear_row n xb w = sum_seq (map (\<lambda>i. xb i * tdata w ! i) [0..<n])"

text \<open>The inner product of row \<open>u\<close> of one factor table with row \<open>i\<close> of the other.\<close>

definition dot_row :: "nat \<Rightarrow> 'a tensor \<Rightarrow> 'a tensor \<Rightarrow> nat \<Rightarrow> nat \<Rightarrow> 'a::{zero,plus,times}" where
  "dot_row k X Y u i = sum_seq (map (\<lambda>f. at2 X u f * at2 Y i f) [0..<k])"

text \<open>
  The specification's closed form of the interaction of one sample,
  \<^verbatim>\<open>0.5 * sum_f [ (sum_i x_i V_if)^2 - sum_i x_i^2 V_if^2 ]\<close>, and the pairwise sum
  \<^verbatim>\<open>sum_{i<j} x_i x_j <V_i, V_j>\<close> that it rewrites, both in exact arithmetic.
\<close>

definition interaction_closed_form ::
  "nat \<Rightarrow> nat \<Rightarrow> (nat \<Rightarrow> 'a::field) \<Rightarrow> (nat \<Rightarrow> nat \<Rightarrow> 'a) \<Rightarrow> 'a" where
  "interaction_closed_form n k x V =
     (1 / 2) * (\<Sum>f<k. (\<Sum>i<n. x i * V i f)\<^sup>2 - (\<Sum>i<n. (x i)\<^sup>2 * (V i f)\<^sup>2))"

definition pairwise_interaction ::
  "nat \<Rightarrow> nat \<Rightarrow> (nat \<Rightarrow> 'a::field) \<Rightarrow> (nat \<Rightarrow> nat \<Rightarrow> 'a) \<Rightarrow> 'a" where
  "pairwise_interaction n k x V = (\<Sum>j<n. \<Sum>i<j. x i * x j * (\<Sum>f<k. V i f * V j f))"

text \<open>\<^verbatim>\<open>t[rows]\<close>: the batch made of the listed rows of \<open>t\<close>, in that order.\<close>

definition select_rows :: "nat list \<Rightarrow> 'a tensor \<Rightarrow> 'a tensor" where
  "select_rows rs t =
     (let w = prod_list (tl (tshape t))
      in Tensor (length rs # tl (tshape t))
           (map (\<lambda>p. tdata t ! ((rs ! (p div w)) * w + p mod w)) [0..<length rs * w]))"

section \<open>Single-precision numbers\<close>

text \<open>
  The parameters are \<^verbatim>\<open>FloatTensor\<close>s: binary32 numbers. A finite binary32 number is
  \<open>m * 2 ^ e\<close> for integers \<open>m\<close> and \<open>e\<close> with \<open>\<bar>m\<bar> < 2 ^ 24\<close>, \<open>- 149 \<le> e\<close> and a
  magnitude below \<open>2 ^ 128\<close>; it is kept with \<open>m\<close> odd, or as \<open>F32 0 0\<close>. Beside the
  finite numbers there are the two infinities and the value that is not a number. The sign
  of zero is not kept: the two zeros of binary32 are equal as numbers.
\<close>

datatype f32 = F32 (mant: int) (expo: int) | PInf | NInf | NaN

definition is_finite :: "f32 \<Rightarrow> bool" where
  "is_finite a = (case a of F32 m e \<Rightarrow> True | _ \<Rightarrow> False)"

text \<open>The rational number a finite value stands for.\<close>

definition f32_value :: "f32 \<Rightarrow> rat option" where
  "f32_value a =
     (case a of
        F32 m e \<Rightarrow> Some (if 0 \<le> e then of_int m * 2 ^ nat e else of_int m / 2 ^ nat (- e))
      | _ \<Rightarrow> None)"

function strip :: "int \<Rightarrow> int \<Rightarrow> f32" where
  "strip m e = (if m = 0 then F32 0 0 else if even m then strip (m div 2) (e + 1) else F32 m e)"
  by pat_completeness auto
termination
  by (relation "measure (\<lambda>(m, e). nat \<bar>m\<bar>)") auto

text \<open>\<open>m / 2 ^ s\<close>, rounded to the nearest integer, ties to even.\<close>

definition rne_shift :: "int \<Rightarrow> nat \<Rightarrow> int" where
  "rne_shift m s =
     (let q = m div 2 ^ s; r = m mod 2 ^ s
      in if 2 * r > 2 ^ s \<or> (2 * r = 2 ^ s \<and> odd q) then q + 1 else q)"

text \<open>A rounded magnitude of \<open>2 ^ 128\<close> or more becomes an infinity.\<close>

definition overflow :: "int \<Rightarrow> int \<Rightarrow> f32" where
  "overflow m e =
     (if m \<noteq> 0 \<and> bitlen \<bar>m\<bar> + e > 128 then (if 0 < m then PInf else NInf)
      else strip m e)"

text \<open>
  Every operation rounds its exact result \<open>m * 2 ^ e\<close> to the nearest binary32 number, to
  the even one in a tie: to 24 significant bits, and to a multiple of \<open>2 ^ - 149\<close> where
  the result is too small for 24 bits (gradual underflow).
\<close>

definition round24 :: "int \<Rightarrow> int \<Rightarrow> f32" where
  "round24 m e =
     (let e' = max (e + bitlen \<bar>m\<bar> - 24) (- 149)
      in if e' \<le> e then overflow m e
         else overflow (rne_shift m (nat (e' - e))) e')"

definition f32_sgn :: "f32 \<Rightarrow> int" where
  "f32_sgn a = (case a of F32 m e \<Rightarrow> sgn m | PInf \<Rightarrow> 1 | NInf \<Rightarrow> - 1 | NaN \<Rightarrow> 0)"

text \<open>The infinity of a sign; a product with sign zero is zero times an infinity.\<close>

definition inf_of :: "int \<Rightarrow> f32" where
  "inf_of s = (if 0 < s then PInf else if s < 0 then NInf else NaN)"

definition f32_neg :: "f32 \<Rightarrow> f32" where
  "f32_neg a = (case a of F32 m e \<Rightarrow> F32 (- m) e | PInf \<Rightarrow> NInf | NInf \<Rightarrow> PInf | NaN \<Rightarrow> NaN)"

definition f32_mul :: "f32 \<Rightarrow> f32 \<Rightarrow> f32" where
  "f32_mul a b =
     (if is_finite a \<and> is_finite b then round24 (mant a * mant b) (expo a + expo b)
      else if a = NaN \<or> b = NaN then NaN
      else inf_of (f32_sgn a * f32_sgn b))"

definition f32_add :: "f32 \<Rightarrow> f32 \<Rightarrow> f32" where
  "f32_add a b =
     (if is_finite a \<and> is_finite b
      then let e = min (expo a) (expo b)
           in round24 (mant a * 2 ^ nat (expo a - e) + mant b * 2 ^ nat (expo b - e)) e
      else if a = NaN \<or> b = NaN then NaN
      else if is_finite a then b
      else if is_finite b \<or> a = b then a
      else NaN)"

definition f32_sub :: "f32 \<Rightarrow> f32 \<Rightarrow> f32" where
  "f32_sub a b = f32_add a (f32_neg b)"

text \<open>
  Division: the quotient of two finite numbers is computed with more than 26 bits and one
  more bit that records whether anything was left, which is enough to round it correctly.
\<close>

definition f32_div :: "f32 \<Rightarrow> f32 \<Rightarrow> f32" where
  "f32_div a b =
     (if is_finite a \<and> is_finite b
      then if mant b = 0 then inf_of (sgn (mant a))
           else let k = nat (bitlen \<bar>mant b\<bar>) + 26;
                    q = (\<bar>mant a\<bar> * 2 ^ k) div \<bar>mant b\<bar>;
                    r = (\<bar>mant a\<bar> * 2 ^ k) mod \<bar>mant b\<bar>
                in round24 (sgn (mant a) * sgn (mant b) * (2 * q + (if r = 0 then 0 else 1)))
                     (expo a - expo b - int k - 1)
      else if a = NaN \<or> b = NaN then NaN
      else if is_finite a then F32 0 0
      else if is_finite b then inf_of (f32_sgn a * (if mant b < 0 then - 1 else 1))
      else NaN)"

instantiation f32 :: "{zero,one,plus,minus,times,inverse}"
begin

definition zero_f32 :: f32 where "zero_f32 = F32 0 0"

definition one_f32 :: f32 where "one_f32 = F32 1 0"

definition plus_f32 :: "f32 \<Rightarrow> f32 \<Rightarrow> f32" where "plus_f32 = f32_add"

definition minus_f32 :: "f32 \<Rightarrow> f32 \<Rightarrow> f32" where "minus_f32 = f32_sub"

definition times_f32 :: "f32 \<Rightarrow> f32 \<Rightarrow> f32" where "times_f32 = f32_mul"

definition divide_f32 :: "f32 \<Rightarrow> f32 \<Rightarrow> f32" where "divide_f32 = f32_div"

definition inverse_f32 :: "f32 \<Rightarrow> f32" where "inverse_f32 = f32_div (F32 1 0)"

instance ..

end

section \<open>Properties of the tensor operations\<close>

lemma foldl_add_sum_list: "foldl (+) (a::'a::monoid_add) xs = a + sum_list xs"
  by (induction xs arbitrary: a) (simp_all add: add.assoc)

lemma sum_seq_sum_list: "sum_seq (xs::'a::monoid_add list) = sum_list xs"
  by (simp add: sum_seq_def foldl_add_sum_list)

lemma sum_seq_upt: "sum_seq (map g [0..<n]) = (\<Sum>i<n. (g i :: 'a::comm_monoid_add))"
  by (simp add: sum_seq_sum_list interv_sum_list_conv_sum_set_nat atLeast0LessThan)

lemma ravel_unravel: "p < prod_list s \<Longrightarrow> ravel s (unravel s p) = p"
proof (induction s arbitrary: p)
  case Nil
  then show ?case by simp
next
  case (Cons d ds)
  show ?case
  proof (cases "prod_list ds = 0")
    case True
    with Cons.prems show ?thesis by simp
  next
    case False
    then have pos: "0 < prod_list ds" by simp
    have m: "p mod prod_list ds < prod_list ds" using pos by simp
    have ih: "ravel ds (unravel ds (p mod prod_list ds)) = p mod prod_list ds"
      using Cons.IH [OF m] .
    show ?thesis
    proof (cases "d = 1")
      case True
      with Cons.prems have "p < prod_list ds" by simp
      then show ?thesis using True ih by simp
    next
      case False
      then show ?thesis using ih by simp
    qed
  qed
qed

lemma length_unravel [simp]: "length (unravel s p) = length s"
  by (induction s arbitrary: p) simp_all

lemma bshape_rev_same: "bshape_rev s s = Some s"
  by (induction s) simp_all

lemma broadcast_shape_same: "broadcast_shape s s = Some s"
  by (simp add: broadcast_shape_def bshape_rev_same)

lemma binop_same_shape:
  assumes "tshape a = s" "tshape b = s"
    and "length (tdata a) = prod_list s" "length (tdata b) = prod_list s"
  shows "binop f a b = Inr (Tensor s (map (\<lambda>p. f (tdata a ! p) (tdata b ! p)) [0..<prod_list s]))"
  using assms by (simp add: binop_def broadcast_shape_same bindex_def ravel_unravel)

lemma mm_value:
  assumes "tshape a = [n, m]" "tshape b = [m, p]"
  shows "mm a b = Inr (Tensor [n, p]
           (map (\<lambda>q. sum_seq (map (\<lambda>j. tdata a ! ((q div p) * m + j) * tdata b ! (j * p + q mod p)) [0..<m]))
                [0..<n * p]))"
  using assms by (simp add: mm_def)

lemma sum_dim_last:
  assumes "tshape t = q @ [k]"
  shows "sum_dim (length q) t =
           Inr (Tensor q (map (\<lambda>p. sum_seq (map (\<lambda>j. tdata t ! (p * k + j)) [0..<k])) [0..<prod_list q]))"
  using assms by (simp add: sum_dim_def)

lemma idx_lt: "b < B \<Longrightarrow> f < k \<Longrightarrow> b * k + f < B * (k::nat)"
proof -
  assume a: "b < B" "f < k"
  then have "b * k + f < b * k + k" by simp
  also have "\<dots> = Suc b * k" by simp
  also have "\<dots> \<le> B * k" using a(1) by (intro mult_le_mono1) simp
  finally show ?thesis .
qed

section \<open>The interaction module, sample by sample\<close>

lemma soi_forward_value:
  assumes vs: "tshape (v self) = [n, k]" and xs: "tshape x = [B, n]"
    and wv: "wf_tensor (v self)" and wx: "wf_tensor x"
  shows "fst (soi_forward self x) =
           Inr (Tensor [B, 1] (map (\<lambda>b. interaction_row n k (at2 x b) (at2 (v self))) [0..<B]))"
proof -
  let ?xv = "Tensor [B, k] (map (\<lambda>q. sum_seq (map (\<lambda>j. tdata x ! ((q div k) * n + j) * tdata (v self) ! (j * k + q mod k)) [0..<n])) [0..<B * k])"
  let ?sp = "Tensor [B, k] (map (\<lambda>q. sum_seq (map (\<lambda>j. tdata (pow2 x) ! ((q div k) * n + j) * tdata (pow2 (v self)) ! (j * k + q mod k)) [0..<n])) [0..<B * k])"
  have m1: "mm x (v self) = Inr ?xv" using mm_value [OF xs vs] .
  have m2: "mm (pow2 x) (pow2 (v self)) = Inr ?sp"
    by (rule mm_value) (simp_all add: pow2_def xs vs)
  have d: "tsub (pow2 ?xv) ?sp = Inr (Tensor [B, k] (map (\<lambda>p. tdata (pow2 ?xv) ! p - tdata ?sp ! p) [0..<prod_list [B, k]]))"
    unfolding tsub_def by (rule binop_same_shape) (simp_all add: pow2_def)
  let ?D = "map (\<lambda>p. tdata (pow2 ?xv) ! p - tdata ?sp ! p) [0..<B * k]"
  have s: "sum_dim 1 (Tensor [B, k] ?D) =
             Inr (Tensor [B] (map (\<lambda>b. sum_seq (map (\<lambda>f. ?D ! (b * k + f)) [0..<k])) [0..<B]))"
    using sum_dim_last [of "Tensor [B, k] ?D" "[B]" k] by simp
  have lx: "length (tdata x) = B * n" and lv: "length (tdata (v self)) = n * k"
    using wx wv xs vs by (simp_all add: wf_tensor_def)
  have elem: "?D ! (b * k + f) =
        sum_seq (map (\<lambda>i. at2 x b i * at2 (v self) i f) [0..<n]) * sum_seq (map (\<lambda>i. at2 x b i * at2 (v self) i f) [0..<n])
        - sum_seq (map (\<lambda>i. (at2 x b i * at2 x b i) * (at2 (v self) i f * at2 (v self) i f)) [0..<n])"
    if "b < B" "f < k" for b f
  proof -
    have lt: "b * k + f < B * k" using that by (rule idx_lt)
    have px: "tdata (pow2 x) ! (b * n + i) = tdata x ! (b * n + i) * tdata x ! (b * n + i)" if "i < n" for i
      using idx_lt [OF \<open>b < B\<close> that] by (simp add: pow2_def lx)
    have pv: "tdata (pow2 (v self)) ! (i * k + f) = tdata (v self) ! (i * k + f) * tdata (v self) ! (i * k + f)" if "i < n" for i
      using idx_lt [OF that \<open>f < k\<close>] by (simp add: pow2_def lv)
    have meq: "map (\<lambda>j. tdata (pow2 x) ! (b * n + j) * tdata (pow2 (v self)) ! (j * k + f)) [0..<n]
        = map (\<lambda>i. (at2 x b i * at2 x b i) * (at2 (v self) i f * at2 (v self) i f)) [0..<n]"
      by (rule map_cong) (simp_all add: px pv at2_def xs vs)
    have xvq: "tdata ?xv ! (b * k + f) = sum_seq (map (\<lambda>i. at2 x b i * at2 (v self) i f) [0..<n])"
      using lt that by (simp add: at2_def xs vs)
    have spq: "tdata ?sp ! (b * k + f)
        = sum_seq (map (\<lambda>i. (at2 x b i * at2 x b i) * (at2 (v self) i f * at2 (v self) i f)) [0..<n])"
      using lt that by (simp add: meq)
    have "?D ! (b * k + f) = tdata ?xv ! (b * k + f) * tdata ?xv ! (b * k + f) - tdata ?sp ! (b * k + f)"
      using lt by (simp add: pow2_def)
    then show ?thesis by (simp only: xvq spq)
  qed
  have rows: "map (\<lambda>b. half * sum_seq (map (\<lambda>f. ?D ! (b * k + f)) [0..<k])) [0..<B]
            = map (\<lambda>b. interaction_row n k (at2 x b) (at2 (v self))) [0..<B]"
  proof (rule map_cong [OF refl])
    fix b assume "b \<in> set [0..<B]"
    then have b: "b < B" by simp
    have "map (\<lambda>f. ?D ! (b * k + f)) [0..<k]
        = map (\<lambda>f. sum_seq (map (\<lambda>i. at2 x b i * at2 (v self) i f) [0..<n]) * sum_seq (map (\<lambda>i. at2 x b i * at2 (v self) i f) [0..<n])
        - sum_seq (map (\<lambda>i. (at2 x b i * at2 x b i) * (at2 (v self) i f * at2 (v self) i f)) [0..<n])) [0..<k]"
      by (rule map_cong [OF refl]) (simp only: elem [OF b] set_upt atLeastLessThan_iff)
    then show "half * sum_seq (map (\<lambda>f. ?D ! (b * k + f)) [0..<k]) = interaction_row n k (at2 x b) (at2 (v self))"
      by (simp only: interaction_row_def)
  qed
  have "fst (soi_forward self x) = Inr (unsqueeze_last (scale half (Tensor [B] (map (\<lambda>b. sum_seq (map (\<lambda>f. ?D ! (b * k + f)) [0..<k])) [0..<B]))))"
    using m1 m2 d s by (simp add: soi_forward_def xs bind_err_def Let_def)
  also have "\<dots> = Inr (Tensor [B, 1] (map (\<lambda>b. half * sum_seq (map (\<lambda>f. ?D ! (b * k + f)) [0..<k])) [0..<B]))"
    by (simp add: unsqueeze_last_def scale_def o_def)
  finally show ?thesis by (simp only: rows)
qed



section \<open>The algebra of the closed form\<close>

lemma square_of_sum:
  "(\<Sum>i<(n::nat). a i)\<^sup>2 = (\<Sum>i<n. (a i)\<^sup>2) + 2 * (\<Sum>j<n. \<Sum>i<j. a i * (a j :: 'a::comm_ring_1))"
proof (induction n)
  case 0
  then show ?case by simp
next
  case (Suc n)
  have "(\<Sum>i<Suc n. a i)\<^sup>2 = (\<Sum>i<n. a i)\<^sup>2 + 2 * (\<Sum>i<n. a i) * a n + (a n)\<^sup>2"
    by (simp add: power2_sum)
  also have "\<dots> = (\<Sum>i<n. (a i)\<^sup>2) + 2 * (\<Sum>j<n. \<Sum>i<j. a i * a j) + 2 * (\<Sum>i<n. a i * a n) + (a n)\<^sup>2"
    by (simp add: Suc.IH sum_distrib_right mult.assoc)
  also have "\<dots> = (\<Sum>i<Suc n. (a i)\<^sup>2) + 2 * (\<Sum>j<Suc n. \<Sum>i<j. a i * a j)"
    by (simp add: algebra_simps)
  finally show ?case .
qed

lemma half_field: "(half :: 'a::field_char_0) = 1 / 2"
  by (simp add: half_def)

lemma interaction_row_closed_form:
  "interaction_row n k x V = interaction_closed_form n k x (V :: nat \<Rightarrow> nat \<Rightarrow> 'a::field_char_0)"
  by (simp add: interaction_row_def interaction_closed_form_def sum_seq_upt half_field power2_eq_square)

lemma closed_form_pairwise:
  "interaction_closed_form n k x V = pairwise_interaction n k x (V :: nat \<Rightarrow> nat \<Rightarrow> 'a::field_char_0)"
proof -
  have f: "(\<Sum>i<n. x i * V i f)\<^sup>2 - (\<Sum>i<n. (x i)\<^sup>2 * (V i f)\<^sup>2)
         = 2 * (\<Sum>j<n. \<Sum>i<j. x i * x j * (V i f * V j f))" for f
  proof -
    have "(\<Sum>i<n. x i * V i f)\<^sup>2 = (\<Sum>i<n. (x i * V i f)\<^sup>2) + 2 * (\<Sum>j<n. \<Sum>i<j. (x i * V i f) * (x j * V j f))"
      by (rule square_of_sum)
    then show ?thesis by (simp add: power_mult_distrib mult_ac)
  qed
  have "interaction_closed_form n k x V = (\<Sum>f<k. \<Sum>j<n. \<Sum>i<j. x i * x j * (V i f * V j f))"
    by (simp add: interaction_closed_form_def f sum_distrib_left [symmetric])
  also have "\<dots> = (\<Sum>j<n. \<Sum>f<k. \<Sum>i<j. x i * x j * (V i f * V j f))"
    by (rule sum.swap)
  also have "\<dots> = (\<Sum>j<n. \<Sum>i<j. \<Sum>f<k. x i * x j * (V i f * V j f))"
    by (rule sum.cong [OF refl]) (rule sum.swap)
  also have "\<dots> = pairwise_interaction n k x V"
    by (simp add: pairwise_interaction_def sum_distrib_left)
  finally show ?thesis .
qed

lemma interaction_row_zero:
  "(\<And>i. i < n \<Longrightarrow> x i = 0) \<Longrightarrow> interaction_row n k x V = (0 :: 'a::field_char_0)"
  by (simp add: interaction_row_closed_form interaction_closed_form_def)

lemma interaction_row_single:
  "interaction_row 1 k x V = (0 :: 'a::field_char_0)"
  by (simp add: interaction_row_closed_form closed_form_pairwise pairwise_interaction_def)

lemma soi_forward_all_zero:
  fixes self :: "'a::field_char_0 second_order_interaction"
  assumes inv: "soi_invariant self" and xs: "tshape x = [B, soi_n_features self]" and wx: "wf_tensor x"
    and z: "\<And>b. b < B \<Longrightarrow> interaction_row (soi_n_features self) (soi_n_factors self) (at2 x b) (at2 (v self)) = 0"
  shows "fst (soi_forward self x) = Inr (Tensor [B, 1] (replicate B 0))"
proof -
  have vs: "tshape (v self) = [soi_n_features self, soi_n_factors self]" and wv: "wf_tensor (v self)"
    using inv by (simp_all add: soi_invariant_def)
  have "map (\<lambda>b. interaction_row (soi_n_features self) (soi_n_factors self) (at2 x b) (at2 (v self))) [0..<B]
      = map (\<lambda>b. 0) [0..<B]"
    by (rule map_cong [OF refl]) (simp add: z)
  then show ?thesis
    using soi_forward_value [OF vs xs wv wx] by (simp add: map_replicate_const)
qed

section \<open>The factorization machine, sample by sample\<close>

lemma binop_row_vector:
  assumes "tshape a = [B, n]" "tshape b = [n]"
  shows "binop f a b = Inr (Tensor [B, n] (map (\<lambda>p. f (tdata a ! p) (tdata b ! (p mod n))) [0..<B * n]))"
proof -
  have bs: "broadcast_shape [B, n] [n] = Some [B, n]"
    by (simp add: broadcast_shape_def)
  have "map (\<lambda>p. f (tdata a ! bindex [B, n] (unravel [B, n] p)) (tdata b ! bindex [n] (unravel [B, n] p))) [0..<prod_list [B, n]]
      = map (\<lambda>p. f (tdata a ! p) (tdata b ! (p mod n))) [0..<B * n]"
  proof (rule map_cong)
    show "[0..<prod_list [B, n]] = [0..<B * n]" by simp
  next
    fix p assume "p \<in> set [0..<B * n]"
    then have p: "p < prod_list [B, n]" by simp
    have 1: "bindex [B, n] (unravel [B, n] p) = p"
      using ravel_unravel [OF p] by (simp add: bindex_def)
    have 2: "bindex [n] (unravel [B, n] p) = p mod n"
      by (simp add: bindex_def)
    show "f (tdata a ! bindex [B, n] (unravel [B, n] p)) (tdata b ! bindex [n] (unravel [B, n] p))
        = f (tdata a ! p) (tdata b ! (p mod n))"
      by (simp only: 1 2)
  qed
  then show ?thesis
    by (simp add: binop_def assms bs)
qed

lemma fm_linear_term:
  assumes xs: "tshape x = [B, n]" and ws: "tshape w = [n]"
  shows "bind_err (tmul x w) (\<lambda>xl. bind_err (sum_dim 1 xl) (\<lambda>s. Inr (unsqueeze_last s)))
       = Inr (Tensor [B, 1] (map (\<lambda>b. linear_row n (at2 x b) w) [0..<B]))"
proof -
  let ?P = "map (\<lambda>p. tdata x ! p * tdata w ! (p mod n)) [0..<B * n]"
  have m: "tmul x w = Inr (Tensor [B, n] ?P)"
    unfolding tmul_def using xs ws by (rule binop_row_vector)
  have s: "sum_dim 1 (Tensor [B, n] ?P) =
             Inr (Tensor [B] (map (\<lambda>b. sum_seq (map (\<lambda>j. ?P ! (b * n + j)) [0..<n])) [0..<B]))"
    using sum_dim_last [of "Tensor [B, n] ?P" "[B]" n] by simp
  have rows: "map (\<lambda>b. sum_seq (map (\<lambda>j. ?P ! (b * n + j)) [0..<n])) [0..<B]
            = map (\<lambda>b. linear_row n (at2 x b) w) [0..<B]"
  proof (rule map_cong [OF refl])
    fix b assume "b \<in> set [0..<B]"
    then have b: "b < B" by simp
    have "map (\<lambda>j. ?P ! (b * n + j)) [0..<n] = map (\<lambda>i. at2 x b i * tdata w ! i) [0..<n]"
    proof (rule map_cong [OF refl])
      fix j assume "j \<in> set [0..<n]"
      then have j: "j < n" by simp
      have "b * n + j < B * n" using b j by (rule idx_lt)
      then show "?P ! (b * n + j) = at2 x b j * tdata w ! j"
        using j by (simp add: at2_def xs)
    qed
    then show "sum_seq (map (\<lambda>j. ?P ! (b * n + j)) [0..<n]) = linear_row n (at2 x b) w"
      by (simp only: linear_row_def)
  qed
  show ?thesis
    using s by (simp add: m bind_err_def unsqueeze_last_def rows)
qed

lemma fm_forward_value:
  fixes fm :: "'a::{zero,one,plus,minus,times,inverse} factorization_machine"
  assumes inv: "fm_invariant fm" and xs: "tshape x = [B, fm_n_features fm]" and wx: "wf_tensor x"
  shows "fst (fm_forward fm x) =
           Inr (Tensor [B, 1]
             (map (\<lambda>b. linear_row (fm_n_features fm) (at2 x b) (fm_linear fm)
                      + interaction_row (fm_n_features fm) (fm_factors fm) (at2 x b) (at2 (v (second_order fm))))
                  [0..<B]))"
proof -
  let ?n = "fm_n_features fm" and ?k = "fm_factors fm"
  have ws: "tshape (fm_linear fm) = [?n]"
    and vs: "tshape (v (second_order fm)) = [?n, ?k]" and wv: "wf_tensor (v (second_order fm))"
    using inv by (simp_all add: fm_invariant_def soi_invariant_def)
  let ?L = "Tensor [B, 1] (map (\<lambda>b. linear_row ?n (at2 x b) (fm_linear fm)) [0..<B])"
  let ?I = "Tensor [B, 1] (map (\<lambda>b. interaction_row ?n ?k (at2 x b) (at2 (v (second_order fm)))) [0..<B])"
  have l: "bind_err (tmul x (fm_linear fm)) (\<lambda>xl. bind_err (sum_dim 1 xl) (\<lambda>s. Inr (unsqueeze_last s))) = Inr ?L"
    using xs ws by (rule fm_linear_term)
  have i: "fst (soi_forward (second_order fm) x) = Inr ?I"
    using vs xs wv wx by (rule soi_forward_value)
  have a: "tadd ?L ?I = Inr (Tensor [B, 1] (map (\<lambda>p. tdata ?L ! p + tdata ?I ! p) [0..<prod_list [B, 1]]))"
    unfolding tadd_def by (rule binop_same_shape) simp_all
  have "fst (fm_forward fm x) = bind_err (fst (soi_forward (second_order fm) x)) (\<lambda>interaction. tadd ?L interaction)"
    by (simp only: fm_forward_def l sum.case Let_def split_beta fst_conv)
  also have "\<dots> = tadd ?L ?I"
    by (simp only: i bind_err_def sum.case)
  also have "\<dots> = Inr (Tensor [B, 1] (map (\<lambda>p. tdata ?L ! p + tdata ?I ! p) [0..<B]))"
    using a by simp
  also have "map (\<lambda>p. tdata ?L ! p + tdata ?I ! p) [0..<B]
           = map (\<lambda>b. linear_row ?n (at2 x b) (fm_linear fm)
                      + interaction_row ?n ?k (at2 x b) (at2 (v (second_order fm)))) [0..<B]"
    by (rule map_cong [OF refl]) simp
  finally show ?thesis .
qed

section \<open>Selecting rows of a batch\<close>

lemma tshape_select_rows: "tshape t = [B, n] \<Longrightarrow> tshape (select_rows rs t) = [length rs, n]"
  by (simp add: select_rows_def)

lemma wf_select_rows: "tshape t = [B, n] \<Longrightarrow> wf_tensor (select_rows rs t)"
  by (simp add: select_rows_def wf_tensor_def)

lemma at2_select_rows:
  assumes "tshape t = [B, n]" "b < length rs" "i < n"
  shows "at2 (select_rows rs t) b i = at2 t (rs ! b) i"
proof -
  have "b * n + i < length rs * n" using assms(2,3) by (rule idx_lt)
  then show ?thesis
    using assms by (simp add: select_rows_def at2_def)
qed

lemma select_rows_column:
  assumes "list_all (\<lambda>r. r < B) rs"
  shows "select_rows rs (Tensor [B, 1] (map g [0..<B])) = Tensor [length rs, 1] (map (\<lambda>p. g (rs ! p)) [0..<length rs])"
proof -
  have "map (\<lambda>p. map g [0..<B] ! (rs ! p)) [0..<length rs] = map (\<lambda>p. g (rs ! p)) [0..<length rs]"
  proof (rule map_cong [OF refl])
    fix p assume "p \<in> set [0..<length rs]"
    then have "rs ! p < B" using assms by (simp add: list_all_length)
    then show "map g [0..<B] ! (rs ! p) = g (rs ! p)" by simp
  qed
  then show ?thesis by (simp add: select_rows_def)
qed

lemma interaction_row_cong:
  assumes "\<And>i. i < n \<Longrightarrow> x i = x' i"
  shows "interaction_row n k x V = interaction_row n k x' V"
proof -
  have 1: "map (\<lambda>i. x i * V i f) [0..<n] = map (\<lambda>i. x' i * V i f) [0..<n]" for f
    by (rule map_cong [OF refl]) (simp add: assms)
  have 2: "map (\<lambda>i. (x i * x i) * (V i f * V i f)) [0..<n] = map (\<lambda>i. (x' i * x' i) * (V i f * V i f)) [0..<n]" for f
    by (rule map_cong [OF refl]) (simp add: assms)
  show ?thesis by (simp only: interaction_row_def 1 2)
qed

lemma linear_row_cong:
  assumes "\<And>i. i < n \<Longrightarrow> x i = x' i"
  shows "linear_row n x w = linear_row n x' w"
proof -
  have "map (\<lambda>i. x i * tdata w ! i) [0..<n] = map (\<lambda>i. x' i * tdata w ! i) [0..<n]"
    by (rule map_cong [OF refl]) (simp add: assms)
  then show ?thesis by (simp only: linear_row_def)
qed

section \<open>The embedding models, pair by pair\<close>

lemma embedding_value:
  assumes "tshape w = [n, k]" "ids_in_range n ids"
  shows "embedding w ids =
           Inr (Tensor (tshape ids @ [k])
             (map (\<lambda>p. tdata w ! (nat (tdata ids ! (p div k)) * k + p mod k))
                  [0..<prod_list (tshape ids) * k]))"
  using assms by (simp add: embedding_def ids_in_range_def)

lemma prod_list_squeeze: "prod_list (filter (\<lambda>d. d \<noteq> 1) s) = prod_list (s :: nat list)"
  by (induction s) simp_all

lemma prod_list_one: "prod_list (s :: nat list) = 1 \<Longrightarrow> filter (\<lambda>d. d \<noteq> 1) s = []"
  by (induction s) simp_all

lemma reduce_last_axis:
  fixes t :: "'a::{zero,plus} tensor"
  assumes ts: "tshape t = q @ [k]" and lq: "length q \<le> 2" and lt: "length (tdata t) = prod_list q * k"
  shows "(if length (q @ [k]) > 2 then sum_dim 2 t
          else if length (q @ [k]) > 1 then sum_dim 1 t
          else Inr (sum_all t))
       = Inr (Tensor q (map (\<lambda>p. sum_seq (map (\<lambda>j. tdata t ! (p * k + j)) [0..<k])) [0..<prod_list q]))"
proof -
  consider "length q = 0" | "length q = 1" | "length q = 2" using lq by linarith
  then show ?thesis
  proof cases
    case 1
    then have q: "q = []" by simp
    have "map (\<lambda>j. tdata t ! j) [0..<k] = tdata t"
      using lt q map_nth [of "tdata t"] by simp
    then show ?thesis
      by (simp add: q sum_all_def)
  next
    case 2
    then show ?thesis
      using sum_dim_last [OF ts] by simp
  next
    case 3
    then show ?thesis
      using sum_dim_last [OF ts] by simp
  qed
qed

text \<open>The inner products of the gathered rows, as the rank dispatch computes them.\<close>

lemma dot_by_rank:
  fixes X Y :: "'a::{zero,plus,times} tensor"
  assumes xs: "tshape X = [nu, k]" and ys: "tshape Y = [ni, k]"
    and us: "tshape user_ids = s" and its: "tshape item_ids = s" and ls: "length s \<le> 2"
    and ru: "ids_in_range nu user_ids" and ri: "ids_in_range ni item_ids"
    and k: "2 \<le> k \<or> prod_list s = 1"
  shows "bind_err (embedding X user_ids) (\<lambda>xu.
           let users_batch = squeeze xu in
           bind_err (embedding Y item_ids) (\<lambda>yi.
           let items_batch = squeeze yi in
           if length (tshape users_batch) > 2
           then bind_err (tmul users_batch items_batch) (sum_dim 2)
           else if length (tshape users_batch) > 1
           then bind_err (tmul users_batch items_batch) (sum_dim 1)
           else bind_err (tmul users_batch items_batch) (\<lambda>t. Inr (sum_all t))))
       = Inr (Tensor (filter (\<lambda>d. d \<noteq> 1) s)
           (map (\<lambda>p. dot_row k X Y (nat (tdata user_ids ! p)) (nat (tdata item_ids ! p))) [0..<prod_list s]))"
proof -
  let ?q = "filter (\<lambda>d. d \<noteq> 1) s"
  let ?U = "map (\<lambda>p. tdata X ! (nat (tdata user_ids ! (p div k)) * k + p mod k)) [0..<prod_list s * k]"
  let ?I = "map (\<lambda>p. tdata Y ! (nat (tdata item_ids ! (p div k)) * k + p mod k)) [0..<prod_list s * k]"
  let ?sq = "filter (\<lambda>d. d \<noteq> 1) (s @ [k])"
  let ?P = "map (\<lambda>p. ?U ! p * ?I ! p) [0..<prod_list s * k]"
  have eu: "embedding X user_ids = Inr (Tensor (s @ [k]) ?U)"
    using embedding_value [OF xs ru] by (simp add: us)
  have ei: "embedding Y item_ids = Inr (Tensor (s @ [k]) ?I)"
    using embedding_value [OF ys ri] by (simp add: its)
  have psq: "prod_list ?sq = prod_list s * k"
    by (simp only: prod_list_squeeze) simp
  have "tmul (Tensor ?sq ?U) (Tensor ?sq ?I)
          = Inr (Tensor ?sq (map (\<lambda>p. tdata (Tensor ?sq ?U) ! p * tdata (Tensor ?sq ?I) ! p) [0..<prod_list ?sq]))"
    unfolding tmul_def
    by (rule binop_same_shape) (simp_all only: tensor.sel length_map length_upt psq diff_zero)
  then have m: "tmul (Tensor ?sq ?U) (Tensor ?sq ?I) = Inr (Tensor ?sq ?P)"
    by (simp only: tensor.sel psq)
  have step: "bind_err (embedding X user_ids) (\<lambda>xu.
           let users_batch = squeeze xu in
           bind_err (embedding Y item_ids) (\<lambda>yi.
           let items_batch = squeeze yi in
           if length (tshape users_batch) > 2
           then bind_err (tmul users_batch items_batch) (sum_dim 2)
           else if length (tshape users_batch) > 1
           then bind_err (tmul users_batch items_batch) (sum_dim 1)
           else bind_err (tmul users_batch items_batch) (\<lambda>t. Inr (sum_all t))))
       = (if length ?sq > 2 then sum_dim 2 (Tensor ?sq ?P)
          else if length ?sq > 1 then sum_dim 1 (Tensor ?sq ?P)
          else Inr (sum_all (Tensor ?sq ?P)))"
    by (simp only: eu ei bind_err_def sum.case squeeze_def Let_def tensor.sel m)
  have elem: "?P ! (p * k + f) = at2 X (nat (tdata user_ids ! p)) f * at2 Y (nat (tdata item_ids ! p)) f"
    if "p < prod_list s" "f < k" for p f
  proof -
    have "p * k + f < prod_list s * k" using that by (rule idx_lt)
    then show ?thesis using that(2) by (simp add: at2_def xs ys)
  qed
  have rows: "map (\<lambda>p. sum_seq (map (\<lambda>j. ?P ! (p * k + j)) [0..<k])) [0..<prod_list s]
            = map (\<lambda>p. dot_row k X Y (nat (tdata user_ids ! p)) (nat (tdata item_ids ! p))) [0..<prod_list s]"
  proof (rule map_cong [OF refl])
    fix p assume "p \<in> set [0..<prod_list s]"
    then have p: "p < prod_list s" by simp
    have "map (\<lambda>j. ?P ! (p * k + j)) [0..<k]
        = map (\<lambda>f. at2 X (nat (tdata user_ids ! p)) f * at2 Y (nat (tdata item_ids ! p)) f) [0..<k]"
      by (rule map_cong [OF refl]) (simp only: elem [OF p] set_upt atLeastLessThan_iff)
    then show "sum_seq (map (\<lambda>j. ?P ! (p * k + j)) [0..<k])
        = dot_row k X Y (nat (tdata user_ids ! p)) (nat (tdata item_ids ! p))"
      by (simp only: dot_row_def)
  qed
  show ?thesis
  proof (cases "k = 1")
    case False
    then have sq: "?sq = ?q @ [k]" by simp
    have lq: "length ?q \<le> 2" using ls by (meson le_trans length_filter_le)
    have "(if length (?q @ [k]) > 2 then sum_dim 2 (Tensor (?q @ [k]) ?P)
          else if length (?q @ [k]) > 1 then sum_dim 1 (Tensor (?q @ [k]) ?P)
          else Inr (sum_all (Tensor (?q @ [k]) ?P)))
       = Inr (Tensor ?q (map (\<lambda>p. sum_seq (map (\<lambda>j. tdata (Tensor (?q @ [k]) ?P) ! (p * k + j)) [0..<k])) [0..<prod_list ?q]))"
    proof (rule reduce_last_axis)
      show "tshape (Tensor (?q @ [k]) ?P) = ?q @ [k]" by (simp only: tensor.sel)
      show "length ?q \<le> 2" by (rule lq)
      show "length (tdata (Tensor (?q @ [k]) ?P)) = prod_list ?q * k"
        by (simp only: tensor.sel length_map length_upt diff_zero prod_list_squeeze)
    qed
    then show ?thesis
      by (simp only: step sq prod_list_squeeze tensor.sel rows)
  next
    case True
    with k have one: "prod_list s = 1" by simp
    have q: "?q = []" using one by (rule prod_list_one)
    have sq: "?sq = []" using q True by simp
    have lhs: "(if length ?sq > 2 then sum_dim 2 (Tensor ?sq ?P)
          else if length ?sq > 1 then sum_dim 1 (Tensor ?sq ?P)
          else Inr (sum_all (Tensor ?sq ?P))) = Inr (Tensor [] [sum_seq ?P])"
      unfolding sq by (simp add: sum_all_def)
    have rhs: "map (\<lambda>p. dot_row k X Y (nat (tdata user_ids ! p)) (nat (tdata item_ids ! p))) [0..<prod_list s]
             = [sum_seq ?P]"
      unfolding one True using xs ys True by (simp add: dot_row_def at2_def)
    show ?thesis
      by (simp only: step lhs q rhs)
  qed
qed

lemma smf_forward_value:
  fixes m :: "'a::{zero,plus,times} simple_matrix_factorization_model"
  assumes inv: "smf_invariant m"
    and us: "tshape user_ids = s" and its: "tshape item_ids = s" and ls: "length s \<le> 2"
    and ru: "ids_in_range (smf_n_users m) user_ids" and ri: "ids_in_range (smf_n_items m) item_ids"
    and k: "2 \<le> smf_n_factors m \<or> prod_list s = 1"
  shows "fst (smf_forward m user_ids item_ids) =
           Inr (Tensor (filter (\<lambda>d. d \<noteq> 1) s)
             (map (\<lambda>p. dot_row (smf_n_factors m) (smf_x m) (smf_y m)
                          (nat (tdata user_ids ! p)) (nat (tdata item_ids ! p)))
                  [0..<prod_list s]))"
proof -
  have xs: "tshape (smf_x m) = [smf_n_users m, smf_n_factors m]"
    and ys: "tshape (smf_y m) = [smf_n_items m, smf_n_factors m]"
    using inv by (simp_all add: smf_invariant_def)
  show ?thesis
    unfolding smf_forward_def fst_conv
    using xs ys us its ls ru ri k by (rule dot_by_rank)
qed

lemma squeeze_bias_shape: "filter (\<lambda>d. d \<noteq> 1) (s @ [1::nat]) = filter (\<lambda>d. d \<noteq> 1) s"
  by simp

lemma mf_forward_value:
  fixes m :: "'a::{zero,plus,times} matrix_factorization_model"
  assumes inv: "mf_invariant m"
    and us: "tshape user_ids = s" and its: "tshape item_ids = s" and ls: "length s \<le> 2"
    and ru: "ids_in_range (mf_n_users m) user_ids" and ri: "ids_in_range (mf_n_items m) item_ids"
    and k: "2 \<le> mf_n_factors m \<or> prod_list s = 1"
  shows "fst (mf_forward m user_ids item_ids) =
           Inr (Tensor (filter (\<lambda>d. d \<noteq> 1) s)
             (map (\<lambda>p. (at2 (user_biases m) (nat (tdata user_ids ! p)) 0
                         + at2 (item_biases m) (nat (tdata item_ids ! p)) 0)
                        + dot_row (mf_n_factors m) (mf_x m) (mf_y m)
                            (nat (tdata user_ids ! p)) (nat (tdata item_ids ! p)))
                  [0..<prod_list s]))"
proof -
  let ?k = "mf_n_factors m" and ?q = "filter (\<lambda>d. d \<noteq> 1) s"
  let ?u = "\<lambda>p. nat (tdata user_ids ! p)" and ?i = "\<lambda>p. nat (tdata item_ids ! p)"
  have xs: "tshape (mf_x m) = [mf_n_users m, ?k]" and ys: "tshape (mf_y m) = [mf_n_items m, ?k]"
    and bus: "tshape (user_biases m) = [mf_n_users m, 1]" and bis: "tshape (item_biases m) = [mf_n_items m, 1]"
    using inv by (simp_all add: mf_invariant_def)
  let ?BU = "map (\<lambda>p. tdata (user_biases m) ! (nat (tdata user_ids ! (p div 1)) * 1 + p mod 1)) [0..<prod_list s * 1]"
  let ?BI = "map (\<lambda>p. tdata (item_biases m) ! (nat (tdata item_ids ! (p div 1)) * 1 + p mod 1)) [0..<prod_list s * 1]"
  let ?XU = "map (\<lambda>p. tdata (mf_x m) ! (nat (tdata user_ids ! (p div ?k)) * ?k + p mod ?k)) [0..<prod_list s * ?k]"
  let ?YI = "map (\<lambda>p. tdata (mf_y m) ! (nat (tdata item_ids ! (p div ?k)) * ?k + p mod ?k)) [0..<prod_list s * ?k]"
  have ebu: "embedding (user_biases m) user_ids = Inr (Tensor (s @ [1]) ?BU)"
    using embedding_value [OF bus ru] by (simp only: us)
  have ebi: "embedding (item_biases m) item_ids = Inr (Tensor (s @ [1]) ?BI)"
    using embedding_value [OF bis ri] by (simp only: its)
  have exu: "embedding (mf_x m) user_ids = Inr (Tensor (s @ [?k]) ?XU)"
    using embedding_value [OF xs ru] by (simp only: us)
  have eyi: "embedding (mf_y m) item_ids = Inr (Tensor (s @ [?k]) ?YI)"
    using embedding_value [OF ys ri] by (simp only: its)
  let ?BS = "map (\<lambda>p. ?BU ! p + ?BI ! p) [0..<prod_list ?q]"
  have "tadd (Tensor ?q ?BU) (Tensor ?q ?BI)
      = Inr (Tensor ?q (map (\<lambda>p. tdata (Tensor ?q ?BU) ! p + tdata (Tensor ?q ?BI) ! p) [0..<prod_list ?q]))"
    unfolding tadd_def
    by (rule binop_same_shape) (simp_all only: tensor.sel length_map length_upt diff_zero prod_list_squeeze mult_1_right)
  then have bs: "tadd (Tensor ?q ?BU) (Tensor ?q ?BI) = Inr (Tensor ?q ?BS)"
    by (simp only: tensor.sel)
  let ?DOT = "map (\<lambda>p. dot_row ?k (mf_x m) (mf_y m) (?u p) (?i p)) [0..<prod_list s]"
  have dot: "(if length (tshape (squeeze (Tensor (s @ [?k]) ?XU))) > 2
         then bind_err (tmul (squeeze (Tensor (s @ [?k]) ?XU)) (squeeze (Tensor (s @ [?k]) ?YI))) (sum_dim 2)
         else if length (tshape (squeeze (Tensor (s @ [?k]) ?XU))) > 1
         then bind_err (tmul (squeeze (Tensor (s @ [?k]) ?XU)) (squeeze (Tensor (s @ [?k]) ?YI))) (sum_dim 1)
         else bind_err (tmul (squeeze (Tensor (s @ [?k]) ?XU)) (squeeze (Tensor (s @ [?k]) ?YI))) (\<lambda>t. Inr (sum_all t)))
       = Inr (Tensor ?q ?DOT)"
    using dot_by_rank [OF xs ys us its ls ru ri k]
    by (simp only: exu eyi bind_err_def [of "Inr _"] sum.case Let_def)
  have "tadd (Tensor ?q ?BS) (Tensor ?q ?DOT)
      = Inr (Tensor ?q (map (\<lambda>p. tdata (Tensor ?q ?BS) ! p + tdata (Tensor ?q ?DOT) ! p) [0..<prod_list ?q]))"
    unfolding tadd_def
    by (rule binop_same_shape) (simp_all only: tensor.sel length_map length_upt diff_zero prod_list_squeeze)
  then have fin: "tadd (Tensor ?q ?BS) (Tensor ?q ?DOT) = Inr (Tensor ?q (map (\<lambda>p. ?BS ! p + ?DOT ! p) [0..<prod_list s]))"
    by (simp only: tensor.sel prod_list_squeeze)
  have sqb: "squeeze (Tensor (s @ [1]) D) = Tensor ?q D" for D :: "'a list"
    by (simp only: squeeze_def tensor.sel squeeze_bias_shape)
  have "fst (mf_forward m user_ids item_ids) = tadd (Tensor ?q ?BS) (Tensor ?q ?DOT)"
    unfolding mf_forward_def fst_conv
    by (simp only: ebu ebi exu eyi bind_err_def [of "Inr _"] sum.case Let_def sqb bs dot)
  also have "\<dots> = Inr (Tensor ?q (map (\<lambda>p. ?BS ! p + ?DOT ! p) [0..<prod_list s]))"
    by (rule fin)
  also have "map (\<lambda>p. ?BS ! p + ?DOT ! p) [0..<prod_list s]
      = map (\<lambda>p. (at2 (user_biases m) (?u p) 0 + at2 (item_biases m) (?i p) 0)
                  + dot_row ?k (mf_x m) (mf_y m) (?u p) (?i p)) [0..<prod_list s]"
  proof (rule map_cong [OF refl])
    fix p assume "p \<in> set [0..<prod_list s]"
    then have p: "p < prod_list s" by simp
    then show "?BS ! p + ?DOT ! p
        = (at2 (user_biases m) (?u p) 0 + at2 (item_biases m) (?i p) 0)
          + dot_row ?k (mf_x m) (mf_y m) (?u p) (?i p)"
      using prod_list_squeeze [of s] by (simp add: at2_def bus bis)
  qed
  finally show ?thesis .
qed

section \<open>Zero inputs\<close>

text \<open>In exact arithmetic a zero input gives a zero output, whatever the matrix is.\<close>

lemma soi_forward_zero_input_exact:
  fixes self :: "'a::field_char_0 second_order_interaction"
  assumes "soi_invariant self" and "tshape x = [B, soi_n_features self]" and "wf_tensor x"
    and "list_all (\<lambda>e. e = 0) (tdata x)"
  shows "fst (soi_forward self x) = Inr (Tensor [B, 1] (replicate B 0))"
proof (rule soi_forward_all_zero [OF assms(1-3)])
  fix b assume b: "b < B"
  have len: "length (tdata x) = B * soi_n_features self"
    using assms(2,3) by (simp add: wf_tensor_def)
  have "at2 x b i = 0" if "i < soi_n_features self" for i
  proof -
    have "b * soi_n_features self + i < length (tdata x)"
      using idx_lt [OF b that] len by simp
    then have "tdata x ! (b * soi_n_features self + i) \<in> set (tdata x)" by (rule nth_mem)
    then show ?thesis using assms(4) by (simp add: at2_def assms(2) list_all_iff)
  qed
  then show "interaction_row (soi_n_features self) (soi_n_factors self) (at2 x b) (at2 (v self)) = 0"
    by (rule interaction_row_zero)
qed

text \<open>
  In single precision zero times a number is zero only for a finite number: zero times an
  infinity is not a number. The squares of the entries of the matrix enter the forward pass,
  so they have to be finite as well.
\<close>

lemma sum_seq_zeros:
  fixes xs :: "'a::{zero,plus} list"
  assumes z: "(0::'a) + 0 = 0" and "list_all (\<lambda>a. a = 0) xs"
  shows "sum_seq xs = 0"
proof -
  have "foldl (+) (0::'a) xs = 0" if "list_all (\<lambda>a. a = 0) xs" for xs
    using that by (induction xs) (simp_all add: z)
  then show ?thesis using assms(2) by (simp add: sum_seq_def)
qed

lemma interaction_row_zero_sample:
  fixes x :: "nat \<Rightarrow> 'a::{zero,one,plus,minus,times,inverse}"
  assumes x: "\<And>i. i < n \<Longrightarrow> x i = 0"
    and m1: "\<And>i f. i < n \<Longrightarrow> f < k \<Longrightarrow> 0 * V i f = 0"
    and m2: "\<And>i f. i < n \<Longrightarrow> f < k \<Longrightarrow> 0 * (V i f * V i f) = 0"
    and zz: "(0::'a) * 0 = 0" and az: "(0::'a) + 0 = 0" and sz: "(0::'a) - 0 = 0"
    and hz: "(half::'a) * 0 = 0"
  shows "interaction_row n k x V = 0"
proof -
  have 1: "sum_seq (map (\<lambda>i. x i * V i f) [0..<n]) = 0" if "f < k" for f
    by (rule sum_seq_zeros [OF az]) (simp add: list_all_iff x m1 that)
  have 2: "sum_seq (map (\<lambda>i. (x i * x i) * (V i f * V i f)) [0..<n]) = 0" if "f < k" for f
    by (rule sum_seq_zeros [OF az]) (simp add: list_all_iff x zz m2 that)
  have "sum_seq (map (\<lambda>f. (sum_seq (map (\<lambda>i. x i * V i f) [0..<n]) * sum_seq (map (\<lambda>i. x i * V i f) [0..<n]))
                              - sum_seq (map (\<lambda>i. (x i * x i) * (V i f * V i f)) [0..<n])) [0..<k]) = 0"
    by (rule sum_seq_zeros [OF az]) (simp add: list_all_iff 1 2 zz sz)
  then show ?thesis
    by (simp only: interaction_row_def hz)
qed

lemma rne_shift_zero: "rne_shift 0 s = 0"
  by (simp add: rne_shift_def)

lemma round24_zero: "round24 0 e = F32 0 0"
  by (simp add: round24_def overflow_def rne_shift_zero Let_def)

lemma f32_zero_times: "is_finite a \<Longrightarrow> 0 * a = (0::f32)"
  by (cases a) (simp_all add: times_f32_def zero_f32_def f32_mul_def is_finite_def round24_zero)

lemma f32_times_zero: "is_finite a \<Longrightarrow> a * 0 = (0::f32)"
  by (cases a) (simp_all add: times_f32_def zero_f32_def f32_mul_def is_finite_def round24_zero)

lemma f32_zero_plus_minus: "(0::f32) + 0 = 0" "(0::f32) - 0 = 0"
  by (simp_all add: plus_f32_def minus_f32_def zero_f32_def f32_add_def f32_sub_def f32_neg_def
      is_finite_def round24_zero)

lemma f32_half: "(half::f32) = F32 1 (- 1)"
  by code_simp

lemma f32_finite_square: "is_finite (a * a) \<Longrightarrow> is_finite (a::f32)"
  by (cases a) (simp_all add: times_f32_def f32_mul_def is_finite_def f32_sgn_def inf_of_def)

lemma soi_forward_zero_input_binary32:
  fixes self :: "f32 second_order_interaction"
  assumes inv: "soi_invariant self" and xs: "tshape x = [B, soi_n_features self]" and wx: "wf_tensor x"
    and z: "list_all (\<lambda>e. e = 0) (tdata x)"
    and fin: "list_all (\<lambda>a. is_finite (a * a)) (tdata (v self))"
  shows "fst (soi_forward self x) = Inr (Tensor [B, 1] (replicate B 0))"
proof -
  let ?n = "soi_n_features self" and ?k = "soi_n_factors self"
  have vs: "tshape (v self) = [?n, ?k]" and wv: "wf_tensor (v self)"
    using inv by (simp_all add: soi_invariant_def)
  have len: "length (tdata x) = B * ?n" and lv: "length (tdata (v self)) = ?n * ?k"
    using xs wx vs wv by (simp_all add: wf_tensor_def)
  have sq: "is_finite (at2 (v self) i f * at2 (v self) i f)" if "i < ?n" "f < ?k" for i f
  proof -
    have "i * ?k + f < length (tdata (v self))"
      using idx_lt [OF that] lv by simp
    then have "tdata (v self) ! (i * ?k + f) \<in> set (tdata (v self))" by (rule nth_mem)
    then show ?thesis using fin by (simp add: at2_def vs list_all_iff)
  qed
  have row: "interaction_row ?n ?k (at2 x b) (at2 (v self)) = 0" if b: "b < B" for b
  proof (rule interaction_row_zero_sample)
    fix i assume i: "i < ?n"
    have "b * ?n + i < length (tdata x)"
      using idx_lt [OF b i] len by simp
    then have "tdata x ! (b * ?n + i) \<in> set (tdata x)" by (rule nth_mem)
    then show "at2 x b i = 0" using z by (simp add: at2_def xs list_all_iff)
  next
    fix i f assume "i < ?n" "f < ?k"
    then show "0 * at2 (v self) i f = 0"
      by (rule f32_zero_times [OF f32_finite_square [OF sq]])
  next
    fix i f assume "i < ?n" "f < ?k"
    then show "0 * (at2 (v self) i f * at2 (v self) i f) = 0"
      by (rule f32_zero_times [OF sq])
  next
    show "(0::f32) * 0 = 0" by (rule f32_zero_times) (simp add: is_finite_def zero_f32_def)
    show "(0::f32) + 0 = 0" "(0::f32) - 0 = 0" by (rule f32_zero_plus_minus)+
    show "(half::f32) * 0 = 0" by (rule f32_times_zero) (simp add: f32_half is_finite_def)
  qed
  have "map (\<lambda>b. interaction_row ?n ?k (at2 x b) (at2 (v self))) [0..<B] = map (\<lambda>b. 0) [0..<B]"
    by (rule map_cong [OF refl]) (simp add: row)
  then show ?thesis
    using soi_forward_value [OF vs xs wv wx] by (simp add: map_replicate_const)
qed

section \<open>Zero biases\<close>

text \<open>
  Where the model with biases returns the dot product of each pair plus its biases, it
  agrees with the model without biases as soon as all biases are zero.
\<close>

lemma zero_bias_models_agree:
  fixes m :: "'a::{monoid_add,times} matrix_factorization_model"
    and sm :: "'a simple_matrix_factorization_model"
  assumes im: "mf_invariant m" and ism: "smf_invariant sm"
    and same: "mf_n_users m = smf_n_users sm" "mf_n_items m = smf_n_items sm"
      "mf_n_factors m = smf_n_factors sm" "mf_x m = smf_x sm" "mf_y m = smf_y sm"
    and zu: "list_all (\<lambda>b. b = 0) (tdata (user_biases m))"
    and zi: "list_all (\<lambda>b. b = 0) (tdata (item_biases m))"
    and us: "tshape user_ids = s" and its: "tshape item_ids = s" and ls: "length s \<le> 2"
    and wu: "wf_tensor user_ids" and wi: "wf_tensor item_ids"
    and ru: "ids_in_range (mf_n_users m) user_ids" and ri: "ids_in_range (mf_n_items m) item_ids"
    and k: "2 \<le> mf_n_factors m \<or> prod_list s = 1"
  shows "fst (mf_forward m user_ids item_ids) = fst (smf_forward sm user_ids item_ids)"
proof -
  have ru': "ids_in_range (smf_n_users sm) user_ids" and ri': "ids_in_range (smf_n_items sm) item_ids"
    and k': "2 \<le> smf_n_factors sm \<or> prod_list s = 1"
    using ru ri k same by simp_all
  have bus: "tshape (user_biases m) = [mf_n_users m, 1]" "wf_tensor (user_biases m)"
    and bis: "tshape (item_biases m) = [mf_n_items m, 1]" "wf_tensor (item_biases m)"
    using im by (simp_all add: mf_invariant_def)
  have lu: "length (tdata user_ids) = prod_list s" and li: "length (tdata item_ids) = prod_list s"
    using wu wi us its by (simp_all add: wf_tensor_def)
  have bu: "at2 (user_biases m) (nat (tdata user_ids ! p)) 0 = 0" if p: "p < prod_list s" for p
  proof -
    have "tdata user_ids ! p \<in> set (tdata user_ids)" using p lu by simp
    then have "0 \<le> tdata user_ids ! p \<and> tdata user_ids ! p < int (mf_n_users m)"
      using ru by (simp add: ids_in_range_def list_all_iff)
    then have "nat (tdata user_ids ! p) < length (tdata (user_biases m))"
      using bus by (simp add: wf_tensor_def nat_less_iff)
    then have "tdata (user_biases m) ! nat (tdata user_ids ! p) \<in> set (tdata (user_biases m))"
      by (rule nth_mem)
    then show ?thesis using zu by (simp add: at2_def bus list_all_iff)
  qed
  have bi: "at2 (item_biases m) (nat (tdata item_ids ! p)) 0 = 0" if p: "p < prod_list s" for p
  proof -
    have "tdata item_ids ! p \<in> set (tdata item_ids)" using p li by simp
    then have "0 \<le> tdata item_ids ! p \<and> tdata item_ids ! p < int (mf_n_items m)"
      using ri by (simp add: ids_in_range_def list_all_iff)
    then have "nat (tdata item_ids ! p) < length (tdata (item_biases m))"
      using bis by (simp add: wf_tensor_def nat_less_iff)
    then have "tdata (item_biases m) ! nat (tdata item_ids ! p) \<in> set (tdata (item_biases m))"
      by (rule nth_mem)
    then show ?thesis using zi by (simp add: at2_def bis list_all_iff)
  qed
  have "map (\<lambda>p. (at2 (user_biases m) (nat (tdata user_ids ! p)) 0
                         + at2 (item_biases m) (nat (tdata item_ids ! p)) 0)
                        + dot_row (mf_n_factors m) (mf_x m) (mf_y m)
                            (nat (tdata user_ids ! p)) (nat (tdata item_ids ! p)))
                  [0..<prod_list s]
      = map (\<lambda>p. dot_row (smf_n_factors sm) (smf_x sm) (smf_y sm)
                          (nat (tdata user_ids ! p)) (nat (tdata item_ids ! p)))
                  [0..<prod_list s]"
    by (rule map_cong [OF refl]) (simp add: bu bi same)
  then show ?thesis
    by (simp only: mf_forward_value [OF im us its ls ru ri k] smf_forward_value [OF ism us its ls ru' ri' k'])
qed

section \<open>The claims\<close>

text \<open>
  Claim C1, as stated: for every \<open>V\<close> and every batch \<open>x\<close> the forward pass of the
  second-order interaction module returns the closed form, which equals the pairwise sum
  \<^verbatim>\<open>sum_{i<j} x_i x_j <V_i, V_j>\<close> exactly in exact arithmetic and within a tolerance
  such as 1e-5 in floating point. The second half fails in single precision: for the sample
  \<open>x = (3, 1)\<close> and the rows \<open>4097\<close> and \<open>1\<close> of \<open>V\<close> the pairwise sum is \<open>12291\<close>
  and the forward pass returns \<open>12296\<close>, which is off by \<open>5\<close>, more than 1e-5 of either.
\<close>

theorem soi_forward_pairwise_binary32_counterexample:
  "soi_invariant (soi_init 2 1 [F32 4097 0, F32 1 0])
   \<and> tshape (Tensor [1, 2] [F32 3 0, F32 1 0]) = [1, soi_n_features (soi_init 2 1 [F32 4097 0, F32 1 0])]
   \<and> wf_tensor (Tensor [1, 2] [F32 3 0, F32 1 0])
   \<and> fst (soi_forward (soi_init 2 1 [F32 4097 0, F32 1 0]) (Tensor [1, 2] [F32 3 0, F32 1 0]))
       = Inr (Tensor [1, 1] [F32 1537 3])
   \<and> f32_value (F32 1537 3) = Some 12296
   \<and> map f32_value [F32 3 0, F32 1 0] = [Some 3, Some 1]
   \<and> map f32_value [F32 4097 0, F32 1 0] = [Some 4097, Some 1]
   \<and> pairwise_interaction 2 1 (at2 (Tensor [1, 2] [3, 1 :: rat]) 0) (at2 (Tensor [2, 1] [4097, 1])) = 12291
   \<and> interaction_closed_form 2 1 (at2 (Tensor [1, 2] [3, 1 :: rat]) 0) (at2 (Tensor [2, 1] [4097, 1])) = 12291
   \<and> (1 / 100000 :: rat) < \<bar>12296 - 12291\<bar>
   \<and> (1 / 100000 :: rat) * \<bar>12291\<bar> < \<bar>12296 - 12291\<bar>"
proof -
  have 1: "soi_invariant (soi_init 2 1 [F32 4097 0, F32 1 0])"
    by (simp add: soi_invariant_def soi_init_def wf_tensor_def)
  have 2: "tshape (Tensor [1, 2] [F32 3 0, F32 1 0]) = [1, soi_n_features (soi_init 2 1 [F32 4097 0, F32 1 0])]"
    by (simp add: soi_init_def)
  have 3: "wf_tensor (Tensor [1, 2] [F32 3 0, F32 1 0])"
    by (simp add: wf_tensor_def)
  have 4: "fst (soi_forward (soi_init 2 1 [F32 4097 0, F32 1 0]) (Tensor [1, 2] [F32 3 0, F32 1 0]))
       = Inr (Tensor [1, 1] [F32 1537 3])"
    by code_simp
  have 5: "f32_value (F32 1537 3) = Some 12296
     \<and> map f32_value [F32 3 0, F32 1 0] = [Some 3, Some 1]
     \<and> map f32_value [F32 4097 0, F32 1 0] = [Some 4097, Some 1]"
    by (simp add: f32_value_def)
  have 6: "pairwise_interaction 2 1 (at2 (Tensor [1, 2] [3, 1 :: rat]) 0) (at2 (Tensor [2, 1] [4097, 1])) = 12291"
    by (simp add: pairwise_interaction_def at2_def lessThan_Suc numeral_2_eq_2)
  have 7: "interaction_closed_form 2 1 (at2 (Tensor [1, 2] [3, 1 :: rat]) 0) (at2 (Tensor [2, 1] [4097, 1])) = 12291"
    by (simp only: closed_form_pairwise 6)
  have 8: "(1 / 100000 :: rat) < \<bar>12296 - 12291\<bar> \<and> (1 / 100000 :: rat) * \<bar>12291\<bar> < \<bar>12296 - 12291\<bar>"
    by simp
  from 1 2 3 4 5 6 7 8 show ?thesis by (intro conjI) simp_all
qed

text \<open>
  Claim C1, amended: in exact arithmetic (the numbers of a field of characteristic zero),
  for every interaction matrix \<open>V\<close> of shape (n_features, n_factors) and every batch \<open>x\<close>
  of shape (batch_size, n_features), the forward pass of the second-order interaction module
  returns, for each sample \<open>b\<close>, exactly the closed form
  \<^verbatim>\<open>0.5 * sum_f [ (sum_i x[b,i] V[i,f])^2 - sum_i x[b,i]^2 V[i,f]^2 ]\<close>, which is exactly
  the pairwise sum \<^verbatim>\<open>sum_{i<j} x_i x_j <V_i, V_j>\<close>.
\<close>

theorem soi_forward_closed_form:
  fixes self :: "'a::field_char_0 second_order_interaction"
  assumes "soi_invariant self" and "tshape x = [B, soi_n_features self]" and "wf_tensor x"
  shows "fst (soi_forward self x) =
           Inr (Tensor [B, 1]
             (map (\<lambda>b. interaction_closed_form (soi_n_features self) (soi_n_factors self)
                          (at2 x b) (at2 (v self))) [0..<B]))
       \<and> fst (soi_forward self x) =
           Inr (Tensor [B, 1]
             (map (\<lambda>b. pairwise_interaction (soi_n_features self) (soi_n_factors self)
                          (at2 x b) (at2 (v self))) [0..<B]))"
proof -
  have vs: "tshape (v self) = [soi_n_features self, soi_n_factors self]" and wv: "wf_tensor (v self)"
    using assms(1) by (simp_all add: soi_invariant_def)
  have "fst (soi_forward self x) =
          Inr (Tensor [B, 1] (map (\<lambda>b. interaction_row (soi_n_features self) (soi_n_factors self)
                 (at2 x b) (at2 (v self))) [0..<B]))"
    using vs assms(2) wv assms(3) by (rule soi_forward_value)
  then show ?thesis
    by (simp add: interaction_row_closed_form closed_form_pairwise)
qed

theorem soi_forward_closed_form_witness:
  "soi_invariant (soi_init 2 2 [1, 2, 3, 4 :: rat])
   \<and> tshape (Tensor [1, 2] [1, 1 :: rat]) = [1, soi_n_features (soi_init 2 2 [1, 2, 3, 4 :: rat])]
   \<and> wf_tensor (Tensor [1, 2] [1, 1 :: rat])
   \<and> fst (soi_forward (soi_init 2 2 [1, 2, 3, 4 :: rat]) (Tensor [1, 2] [1, 1])) = Inr (Tensor [1, 1] [11])"
proof -
  have i: "soi_invariant (soi_init 2 2 [1, 2, 3, 4 :: rat])"
    by (simp add: soi_invariant_def soi_init_def wf_tensor_def)
  have s: "tshape (Tensor [1, 2] [1, 1 :: rat]) = [1, soi_n_features (soi_init 2 2 [1, 2, 3, 4 :: rat])]"
    by (simp add: soi_init_def)
  have w: "wf_tensor (Tensor [1, 2] [1, 1 :: rat])"
    by (simp add: wf_tensor_def)
  have c: "pairwise_interaction 2 2 (at2 (Tensor [1, 2] [1, 1 :: rat]) 0) (at2 (Tensor [2, 2] [1, 2, 3, 4 :: rat])) = 11"
    by (simp add: pairwise_interaction_def at2_def lessThan_Suc numeral_2_eq_2)
  have "fst (soi_forward (soi_init 2 2 [1, 2, 3, 4 :: rat]) (Tensor [1, 2] [1, 1])) =
       Inr (Tensor [1, 1] (map (\<lambda>b. pairwise_interaction 2 2 (at2 (Tensor [1, 2] [1, 1 :: rat]) b) (at2 (Tensor [2, 2] [1, 2, 3, 4 :: rat]))) [0..<1]))"
    using soi_forward_closed_form [OF i s w, THEN conjunct2] by (simp add: soi_init_def)
  with i s w c show ?thesis by simp
qed

text \<open>
  Claim C2. For all n_features, n_factors and batch_size (in particular when each is at
  least one) and every batch \<open>x\<close> of shape (batch_size, n_features), the forward pass of
  the second-order interaction module returns a tensor of shape (batch_size, 1): a
  well-formed tensor, with one element for each sample. This holds for every kind of
  number.
\<close>

theorem soi_forward_shape:
  fixes self :: "'a::{zero,one,plus,minus,times,inverse} second_order_interaction"
  assumes "soi_invariant self" and "tshape x = [B, soi_n_features self]"
  shows "\<exists>t. fst (soi_forward self x) = Inr t \<and> tshape t = [B, 1] \<and> wf_tensor t"
proof -
  have vs: "tshape (v self) = [soi_n_features self, soi_n_factors self]"
    using assms(1) by (simp add: soi_invariant_def)
  show ?thesis
    by (simp add: soi_forward_def assms(2) vs mm_def pow2_def tsub_def binop_def
        broadcast_shape_same sum_dim_def unsqueeze_last_def scale_def bind_err_def Let_def
        wf_tensor_def)
qed

theorem soi_forward_shape_witness:
  "soi_invariant (soi_init 2 3 [1, 2, 3, 4, 5, 6 :: rat])
   \<and> tshape (Tensor [4, 2] [1, 0, 2, 1, 0, 3, 5, 8 :: rat]) = [4, soi_n_features (soi_init 2 3 [1, 2, 3, 4, 5, 6 :: rat])]
   \<and> (\<exists>t. fst (soi_forward (soi_init 2 3 [1, 2, 3, 4, 5, 6 :: rat]) (Tensor [4, 2] [1, 0, 2, 1, 0, 3, 5, 8])) = Inr t
          \<and> tshape t = [4, 1] \<and> wf_tensor t)"
proof -
  have i: "soi_invariant (soi_init 2 3 [1, 2, 3, 4, 5, 6 :: rat])"
    by (simp add: soi_invariant_def soi_init_def wf_tensor_def)
  have s: "tshape (Tensor [4, 2] [1, 0, 2, 1, 0, 3, 5, 8 :: rat]) = [4, soi_n_features (soi_init 2 3 [1, 2, 3, 4, 5, 6 :: rat])]"
    by (simp add: soi_init_def)
  from i s soi_forward_shape [OF i s] show ?thesis by (intro conjI)
qed

text \<open>
  Claim C5. For every batch \<open>x\<close> of shape (batch_size, n_features), the forward pass of
  the factorization machine returns, in shape (batch_size, 1), the sum of the linear term
  (for each sample, the sum over the features of \<open>x\<close> times the linear weight) and of the
  interaction term, which is what the owned interaction module returns on the same \<open>x\<close>.
\<close>

theorem fm_forward_linear_plus_interaction:
  fixes fm :: "'a::{zero,one,plus,minus,times,inverse} factorization_machine"
  assumes "fm_invariant fm" and "tshape x = [B, fm_n_features fm]" and "wf_tensor x"
  shows "fst (fm_forward fm x) =
           Inr (Tensor [B, 1]
             (map (\<lambda>b. linear_row (fm_n_features fm) (at2 x b) (fm_linear fm)
                      + interaction_row (fm_n_features fm) (fm_factors fm) (at2 x b) (at2 (v (second_order fm))))
                  [0..<B]))
       \<and> fst (soi_forward (second_order fm) x) =
           Inr (Tensor [B, 1]
             (map (\<lambda>b. interaction_row (fm_n_features fm) (fm_factors fm) (at2 x b) (at2 (v (second_order fm))))
                  [0..<B]))"
proof
  show "fst (fm_forward fm x) =
           Inr (Tensor [B, 1]
             (map (\<lambda>b. linear_row (fm_n_features fm) (at2 x b) (fm_linear fm)
                      + interaction_row (fm_n_features fm) (fm_factors fm) (at2 x b) (at2 (v (second_order fm))))
                  [0..<B]))"
    using assms by (rule fm_forward_value)
next
  have vs: "tshape (v (second_order fm)) = [fm_n_features fm, fm_factors fm]"
    and wv: "wf_tensor (v (second_order fm))"
    using assms(1) by (simp_all add: fm_invariant_def soi_invariant_def)
  show "fst (soi_forward (second_order fm) x) =
           Inr (Tensor [B, 1]
             (map (\<lambda>b. interaction_row (fm_n_features fm) (fm_factors fm) (at2 x b) (at2 (v (second_order fm))))
                  [0..<B]))"
    using vs assms(2) wv assms(3) by (rule soi_forward_value)
qed

theorem fm_forward_linear_plus_interaction_witness:
  "fm_invariant (fm_init 2 2 [10, 20] [1, 2, 3, 4 :: rat])
   \<and> tshape (Tensor [2, 2] [1, 1, 2, 3 :: rat]) = [2, fm_n_features (fm_init 2 2 [10, 20] [1, 2, 3, 4 :: rat])]
   \<and> wf_tensor (Tensor [2, 2] [1, 1, 2, 3 :: rat])
   \<and> fst (fm_forward (fm_init 2 2 [10, 20] [1, 2, 3, 4 :: rat]) (Tensor [2, 2] [1, 1, 2, 3])) = Inr (Tensor [2, 1] [41, 146])
   \<and> fst (soi_forward (second_order (fm_init 2 2 [10, 20] [1, 2, 3, 4 :: rat])) (Tensor [2, 2] [1, 1, 2, 3])) = Inr (Tensor [2, 1] [11, 66])"
proof -
  have i: "fm_invariant (fm_init 2 2 [10, 20] [1, 2, 3, 4 :: rat])"
    by (simp add: fm_invariant_def soi_invariant_def fm_init_def soi_init_def wf_tensor_def)
  have s: "tshape (Tensor [2, 2] [1, 1, 2, 3 :: rat]) = [2, fm_n_features (fm_init 2 2 [10, 20] [1, 2, 3, 4 :: rat])]"
    by (simp add: fm_init_def)
  have w: "wf_tensor (Tensor [2, 2] [1, 1, 2, 3 :: rat])"
    by (simp add: wf_tensor_def)
  have e1: "map (\<lambda>b. linear_row (fm_n_features (fm_init 2 2 [10, 20] [1, 2, 3, 4 :: rat])) (at2 (Tensor [2, 2] [1, 1, 2, 3 :: rat]) b)
                 (fm_linear (fm_init 2 2 [10, 20] [1, 2, 3, 4 :: rat]))
              + interaction_row (fm_n_features (fm_init 2 2 [10, 20] [1, 2, 3, 4 :: rat])) (fm_factors (fm_init 2 2 [10, 20] [1, 2, 3, 4 :: rat]))
                 (at2 (Tensor [2, 2] [1, 1, 2, 3 :: rat]) b) (at2 (v (second_order (fm_init 2 2 [10, 20] [1, 2, 3, 4 :: rat])))))
            [0..<2] = [41, 146]"
    by code_simp
  have e2: "map (\<lambda>b. interaction_row (fm_n_features (fm_init 2 2 [10, 20] [1, 2, 3, 4 :: rat])) (fm_factors (fm_init 2 2 [10, 20] [1, 2, 3, 4 :: rat]))
                 (at2 (Tensor [2, 2] [1, 1, 2, 3 :: rat]) b) (at2 (v (second_order (fm_init 2 2 [10, 20] [1, 2, 3, 4 :: rat])))))
            [0..<2] = [11, 66]"
    by code_simp
  from fm_forward_linear_plus_interaction [OF i s w] i s w show ?thesis
    by (simp only: e1 e2 simp_thms)
qed

text \<open>
  Claim C6, as stated: for every \<open>V\<close> and every batch \<open>x\<close> whose entries are all zero, the
  output of the second-order interaction module is exactly zero for every sample. In single
  precision this fails for a finite \<open>V\<close> whose square overflows: for the entry \<open>2 ^ 64\<close>
  the square is an infinity, zero times it is not a number, and neither is the output.
\<close>

theorem soi_forward_zero_input_overflow_counterexample:
  "soi_invariant (soi_init 1 1 [F32 1 64])
   \<and> is_finite (F32 1 64) \<and> f32_value (F32 1 64) = Some (2 ^ 64)
   \<and> tshape (Tensor [1, 1] [0 :: f32]) = [1, soi_n_features (soi_init 1 1 [F32 1 64])]
   \<and> wf_tensor (Tensor [1, 1] [0 :: f32])
   \<and> tdata (Tensor [1, 1] [0 :: f32]) = [0]
   \<and> pow2 (Tensor [1, 1] [F32 1 64]) = Tensor [1, 1] [PInf]
   \<and> fst (soi_forward (soi_init 1 1 [F32 1 64]) (Tensor [1, 1] [0])) = Inr (Tensor [1, 1] [NaN])
   \<and> fst (soi_forward (soi_init 1 1 [F32 1 64]) (Tensor [1, 1] [0])) \<noteq> Inr (Tensor [1, 1] [0])"
proof -
  have 1: "soi_invariant (soi_init 1 1 [F32 1 64])"
    by (simp add: soi_invariant_def soi_init_def wf_tensor_def)
  have 2: "is_finite (F32 1 64) \<and> f32_value (F32 1 64) = Some (2 ^ 64)"
    by (simp add: is_finite_def f32_value_def)
  have 3: "tshape (Tensor [1, 1] [0 :: f32]) = [1, soi_n_features (soi_init 1 1 [F32 1 64])]"
    by (simp add: soi_init_def)
  have 4: "wf_tensor (Tensor [1, 1] [0 :: f32])"
    by (simp add: wf_tensor_def)
  have 5: "pow2 (Tensor [1, 1] [F32 1 64]) = Tensor [1, 1] [PInf]"
    by code_simp
  have 6: "fst (soi_forward (soi_init 1 1 [F32 1 64]) (Tensor [1, 1] [0])) = Inr (Tensor [1, 1] [NaN])"
    by code_simp
  have 7: "NaN \<noteq> (0 :: f32)"
    by (simp add: zero_f32_def)
  show ?thesis
    unfolding 6 using 1 2 3 4 5 7 by simp
qed

text \<open>
  Claim C6, amended: for every \<open>V\<close> whose entries have finite squares in single
  precision, and for every \<open>V\<close> in exact arithmetic, and every batch \<open>x\<close> whose entries
  are all zero, the output of the second-order interaction module is exactly zero for every
  sample.
\<close>

theorem soi_forward_zero_input_finite:
  fixes self :: "f32 second_order_interaction"
    and self' :: "'a::field_char_0 second_order_interaction"
  assumes "soi_invariant self" and "tshape x = [B, soi_n_features self]" and "wf_tensor x"
    and "list_all (\<lambda>e. e = 0) (tdata x)"
    and "list_all (\<lambda>a. is_finite (a * a)) (tdata (v self))"
    and "soi_invariant self'" and "tshape x' = [B', soi_n_features self']" and "wf_tensor x'"
    and "list_all (\<lambda>e. e = 0) (tdata x')"
  shows "fst (soi_forward self x) = Inr (Tensor [B, 1] (replicate B 0))
       \<and> fst (soi_forward self' x') = Inr (Tensor [B', 1] (replicate B' 0))"
  using soi_forward_zero_input_binary32 [OF assms(1-5)] soi_forward_zero_input_exact [OF assms(6-9)]
  by (rule conjI)

theorem soi_forward_zero_input_finite_witness:
  "soi_invariant (soi_init 2 2 [F32 1 63, F32 (- 3) 0, F32 5 (- 3), F32 1 (- 149)])
   \<and> tshape (Tensor [3, 2] [0, 0, 0, 0, 0, 0 :: f32])
       = [3, soi_n_features (soi_init 2 2 [F32 1 63, F32 (- 3) 0, F32 5 (- 3), F32 1 (- 149)])]
   \<and> wf_tensor (Tensor [3, 2] [0, 0, 0, 0, 0, 0 :: f32])
   \<and> list_all (\<lambda>e. e = 0) (tdata (Tensor [3, 2] [0, 0, 0, 0, 0, 0 :: f32]))
   \<and> list_all (\<lambda>a. is_finite (a * a)) (tdata (v (soi_init 2 2 [F32 1 63, F32 (- 3) 0, F32 5 (- 3), F32 1 (- 149)])))
   \<and> soi_invariant (soi_init 2 2 [1, 2, 3, 4 :: rat])
   \<and> tshape (Tensor [3, 2] [0, 0, 0, 0, 0, 0 :: rat]) = [3, soi_n_features (soi_init 2 2 [1, 2, 3, 4 :: rat])]
   \<and> wf_tensor (Tensor [3, 2] [0, 0, 0, 0, 0, 0 :: rat])
   \<and> list_all (\<lambda>e. e = 0) (tdata (Tensor [3, 2] [0, 0, 0, 0, 0, 0 :: rat]))
   \<and> fst (soi_forward (soi_init 2 2 [F32 1 63, F32 (- 3) 0, F32 5 (- 3), F32 1 (- 149)]) (Tensor [3, 2] [0, 0, 0, 0, 0, 0]))
       = Inr (Tensor [3, 1] [0, 0, 0])
   \<and> fst (soi_forward (soi_init 2 2 [1, 2, 3, 4 :: rat]) (Tensor [3, 2] [0, 0, 0, 0, 0, 0])) = Inr (Tensor [3, 1] [0, 0, 0])"
proof -
  let ?S = "soi_init 2 2 [F32 1 63, F32 (- 3) 0, F32 5 (- 3), F32 1 (- 149)]"
  let ?X = "Tensor [3, 2] [0, 0, 0, 0, 0, 0 :: f32]"
  let ?S' = "soi_init 2 2 [1, 2, 3, 4 :: rat]"
  let ?X' = "Tensor [3, 2] [0, 0, 0, 0, 0, 0 :: rat]"
  have 1: "soi_invariant ?S"
    by (simp add: soi_invariant_def soi_init_def wf_tensor_def)
  have 2: "tshape ?X = [3, soi_n_features ?S]"
    by (simp add: soi_init_def)
  have 3: "wf_tensor ?X"
    by (simp add: wf_tensor_def)
  have 4: "list_all (\<lambda>e. e = 0) (tdata ?X)"
    by simp
  have 5: "list_all (\<lambda>a. is_finite (a * a)) (tdata (v ?S))"
    by code_simp
  have 6: "soi_invariant ?S'"
    by (simp add: soi_invariant_def soi_init_def wf_tensor_def)
  have 7: "tshape ?X' = [3, soi_n_features ?S']"
    by (simp add: soi_init_def)
  have 8: "wf_tensor ?X'"
    by (simp add: wf_tensor_def)
  have 9: "list_all (\<lambda>e. e = 0) (tdata ?X')"
    by simp
  have r: "replicate 3 (0 :: f32) = [0, 0, 0]" and r': "replicate 3 (0 :: rat) = [0, 0, 0]"
    by (simp_all add: numeral_3_eq_3)
  from soi_forward_zero_input_finite [OF 1 2 3 4 5 6 7 8 9] 1 2 3 4 5 6 7 8 9
  show ?thesis by (simp only: r r' simp_thms)
qed

text \<open>
  Claim C7, as stated: with one feature, the output of the second-order interaction module
  is exactly zero for every sample, for every \<open>V\<close> and every input. This fails in
  single precision, the arithmetic of the parameters: for \<open>x = 3\<close> and \<open>V = 4097\<close> the
  square of the rounded product is \<open>151068688\<close>, the rounded product of the rounded squares
  is \<open>151068672\<close>, and the output is \<open>8\<close>.
\<close>

theorem soi_forward_single_feature_binary32_counterexample:
  "soi_invariant (soi_init 1 1 [F32 4097 0])
   \<and> soi_n_features (soi_init 1 1 [F32 4097 0]) = 1
   \<and> tshape (Tensor [1, 1] [F32 3 0]) = [1, 1]
   \<and> wf_tensor (Tensor [1, 1] [F32 3 0])
   \<and> fst (soi_forward (soi_init 1 1 [F32 4097 0]) (Tensor [1, 1] [F32 3 0])) = Inr (Tensor [1, 1] [F32 1 3])
   \<and> fst (soi_forward (soi_init 1 1 [F32 4097 0]) (Tensor [1, 1] [F32 3 0])) \<noteq> Inr (Tensor [1, 1] [0])"
proof -
  have i: "soi_invariant (soi_init 1 1 [F32 4097 0])"
    by (simp add: soi_invariant_def soi_init_def wf_tensor_def)
  have n: "soi_n_features (soi_init 1 1 [F32 4097 0]) = 1"
    by (simp add: soi_init_def)
  have w: "wf_tensor (Tensor [1, 1] [F32 3 0])"
    by (simp add: wf_tensor_def)
  have e: "fst (soi_forward (soi_init 1 1 [F32 4097 0]) (Tensor [1, 1] [F32 3 0])) = Inr (Tensor [1, 1] [F32 1 3])"
    by code_simp
  have d: "F32 1 3 \<noteq> 0"
    by (simp add: zero_f32_def)
  from i n w e d show ?thesis by simp
qed

text \<open>
  Claim C7, amended: with one feature and exact arithmetic, the output of the second-order
  interaction module is exactly zero for every sample, for every \<open>V\<close> and every input.
\<close>

theorem soi_forward_single_feature_exact:
  fixes self :: "'a::field_char_0 second_order_interaction"
  assumes "soi_invariant self" and "soi_n_features self = 1" and "tshape x = [B, 1]" and "wf_tensor x"
  shows "fst (soi_forward self x) = Inr (Tensor [B, 1] (replicate B 0))"
proof -
  have xs: "tshape x = [B, soi_n_features self]" using assms(2,3) by simp
  show ?thesis
    by (rule soi_forward_all_zero [OF assms(1) xs assms(4)]) (simp only: assms(2) interaction_row_single)
qed

theorem soi_forward_single_feature_exact_witness:
  "soi_invariant (soi_init 1 2 [3, 4 :: rat])
   \<and> soi_n_features (soi_init 1 2 [3, 4 :: rat]) = 1
   \<and> tshape (Tensor [2, 1] [5, 7 :: rat]) = [2, 1]
   \<and> wf_tensor (Tensor [2, 1] [5, 7 :: rat])
   \<and> fst (soi_forward (soi_init 1 2 [3, 4 :: rat]) (Tensor [2, 1] [5, 7])) = Inr (Tensor [2, 1] [0, 0])"
proof -
  have i: "soi_invariant (soi_init 1 2 [3, 4 :: rat])"
    by (simp add: soi_invariant_def soi_init_def wf_tensor_def)
  have n: "soi_n_features (soi_init 1 2 [3, 4 :: rat]) = 1"
    by (simp add: soi_init_def)
  have s: "tshape (Tensor [2, 1] [5, 7 :: rat]) = [2, 1]"
    by simp
  have w: "wf_tensor (Tensor [2, 1] [5, 7 :: rat])"
    by (simp add: wf_tensor_def)
  have r: "replicate 2 (0 :: rat) = [0, 0]"
    by (simp add: numeral_2_eq_2)
  from soi_forward_single_feature_exact [OF i n s w] r i n s w show ?thesis by simp
qed

text \<open>
  Claim C9. No forward pass writes a parameter array, whether the call returns a tensor or
  fails: the interaction module comes back equal to itself except for the recorded batch
  size, so its matrix \<open>v\<close> is unchanged; the factorization machine comes back with its
  linear weights and the matrix of its interaction module unchanged; the two embedding
  models come back unchanged.
\<close>

theorem forward_parameters_unchanged:
  fixes self :: "'a::{zero,one,plus,minus,times,inverse} second_order_interaction"
    and fm :: "'a factorization_machine"
    and mf :: "'b::{zero,plus,times} matrix_factorization_model"
    and smf :: "'b simple_matrix_factorization_model"
  shows "(\<exists>bs. snd (soi_forward self x) = self\<lparr>batch_size := bs\<rparr>)
       \<and> v (snd (soi_forward self x)) = v self
       \<and> (\<exists>bs. snd (fm_forward fm x) = fm\<lparr>second_order := (second_order fm)\<lparr>batch_size := bs\<rparr>\<rparr>)
       \<and> fm_linear (snd (fm_forward fm x)) = fm_linear fm
       \<and> v (second_order (snd (fm_forward fm x))) = v (second_order fm)
       \<and> snd (mf_forward mf user_ids item_ids) = mf
       \<and> snd (smf_forward smf user_ids item_ids) = smf"
proof -
  have s: "\<exists>bs. snd (soi_forward self' x) = self'\<lparr>batch_size := bs\<rparr>"
    for self' :: "'a second_order_interaction"
  proof (cases "tshape x")
    case Nil
    then have "snd (soi_forward self' x) = self'\<lparr>batch_size := batch_size self'\<rparr>"
      by (simp add: soi_forward_def)
    then show ?thesis ..
  next
    case (Cons b bs)
    then have "snd (soi_forward self' x) = self'\<lparr>batch_size := Some b\<rparr>"
      by (simp add: soi_forward_def Let_def)
    then show ?thesis ..
  qed
  have f: "\<exists>bs. snd (fm_forward fm x) = fm\<lparr>second_order := (second_order fm)\<lparr>batch_size := bs\<rparr>\<rparr>"
  proof (cases "bind_err (tmul x (fm_linear fm)) (\<lambda>xl. bind_err (sum_dim 1 xl) (\<lambda>s. Inr (unsqueeze_last s)))")
    case (Inl e)
    then have "snd (fm_forward fm x) = fm\<lparr>second_order := (second_order fm)\<lparr>batch_size := batch_size (second_order fm)\<rparr>\<rparr>"
      by (simp add: fm_forward_def)
    then show ?thesis ..
  next
    case (Inr t)
    from s [of "second_order fm"] obtain bs
      where "snd (soi_forward (second_order fm) x) = (second_order fm)\<lparr>batch_size := bs\<rparr>" ..
    then have "snd (fm_forward fm x) = fm\<lparr>second_order := (second_order fm)\<lparr>batch_size := bs\<rparr>\<rparr>"
      using Inr by (simp add: fm_forward_def Let_def split_beta)
    then show ?thesis ..
  qed
  from s [of self] obtain bs where b: "snd (soi_forward self x) = self\<lparr>batch_size := bs\<rparr>" ..
  from f obtain bs' where b': "snd (fm_forward fm x) = fm\<lparr>second_order := (second_order fm)\<lparr>batch_size := bs'\<rparr>\<rparr>" ..
  show ?thesis
    using s [of self] f by (simp add: b b' mf_forward_def smf_forward_def)
qed

text \<open>
  Claim C10. The second-order interaction module and the factorization machine compute
  each output row from the matching input row alone: for every list of row indices of a
  batch, the forward pass on the batch made of those rows returns those rows of the forward
  pass on the whole batch. A single index gives the output on one row alone; a permutation
  of the indices gives the invariance under reordering the batch. This holds for every
  kind of number.
\<close>

theorem forward_rows_independent:
  fixes self :: "'a::{zero,one,plus,minus,times,inverse} second_order_interaction"
    and fm :: "'a factorization_machine"
  assumes "soi_invariant self" and "tshape x = [B, soi_n_features self]" and "wf_tensor x"
    and "fm_invariant fm" and "tshape x' = [B', fm_n_features fm]" and "wf_tensor x'"
    and "list_all (\<lambda>r. r < B) rs" and "list_all (\<lambda>r. r < B') rs'"
  shows "fst (soi_forward self (select_rows rs x)) = map_sum id (select_rows rs) (fst (soi_forward self x))
       \<and> fst (fm_forward fm (select_rows rs' x')) = map_sum id (select_rows rs') (fst (fm_forward fm x'))"
proof
  let ?n = "soi_n_features self" and ?k = "soi_n_factors self"
  have vs: "tshape (v self) = [?n, ?k]" and wv: "wf_tensor (v self)"
    using assms(1) by (simp_all add: soi_invariant_def)
  have meq: "map (\<lambda>b. interaction_row ?n ?k (at2 (select_rows rs x) b) (at2 (v self))) [0..<length rs]
      = map (\<lambda>p. interaction_row ?n ?k (at2 x (rs ! p)) (at2 (v self))) [0..<length rs]"
  proof (rule map_cong [OF refl])
    fix b assume "b \<in> set [0..<length rs]"
    then have b: "b < length rs" by simp
    show "interaction_row ?n ?k (at2 (select_rows rs x) b) (at2 (v self))
        = interaction_row ?n ?k (at2 x (rs ! b)) (at2 (v self))"
      by (rule interaction_row_cong) (rule at2_select_rows [OF assms(2) b])
  qed
  have l: "fst (soi_forward self (select_rows rs x)) =
      Inr (Tensor [length rs, 1] (map (\<lambda>b. interaction_row ?n ?k (at2 (select_rows rs x) b) (at2 (v self))) [0..<length rs]))"
    by (rule soi_forward_value [OF vs tshape_select_rows [OF assms(2)] wv wf_select_rows [OF assms(2)]])
  have r: "fst (soi_forward self x) =
      Inr (Tensor [B, 1] (map (\<lambda>b. interaction_row ?n ?k (at2 x b) (at2 (v self))) [0..<B]))"
    by (rule soi_forward_value [OF vs assms(2) wv assms(3)])
  show "fst (soi_forward self (select_rows rs x)) = map_sum id (select_rows rs) (fst (soi_forward self x))"
    by (simp only: l r meq map_sum.simps select_rows_column [OF assms(7)])
next
  let ?n = "fm_n_features fm" and ?k = "fm_factors fm"
  have meq: "map (\<lambda>b. linear_row ?n (at2 (select_rows rs' x') b) (fm_linear fm)
                + interaction_row ?n ?k (at2 (select_rows rs' x') b) (at2 (v (second_order fm)))) [0..<length rs']
      = map (\<lambda>p. linear_row ?n (at2 x' (rs' ! p)) (fm_linear fm)
                + interaction_row ?n ?k (at2 x' (rs' ! p)) (at2 (v (second_order fm)))) [0..<length rs']"
  proof (rule map_cong [OF refl])
    fix b assume "b \<in> set [0..<length rs']"
    then have b: "b < length rs'" by simp
    have 1: "linear_row ?n (at2 (select_rows rs' x') b) (fm_linear fm) = linear_row ?n (at2 x' (rs' ! b)) (fm_linear fm)"
      by (rule linear_row_cong) (rule at2_select_rows [OF assms(5) b])
    have 2: "interaction_row ?n ?k (at2 (select_rows rs' x') b) (at2 (v (second_order fm)))
           = interaction_row ?n ?k (at2 x' (rs' ! b)) (at2 (v (second_order fm)))"
      by (rule interaction_row_cong) (rule at2_select_rows [OF assms(5) b])
    show "linear_row ?n (at2 (select_rows rs' x') b) (fm_linear fm)
                + interaction_row ?n ?k (at2 (select_rows rs' x') b) (at2 (v (second_order fm)))
        = linear_row ?n (at2 x' (rs' ! b)) (fm_linear fm)
                + interaction_row ?n ?k (at2 x' (rs' ! b)) (at2 (v (second_order fm)))"
      by (simp only: 1 2)
  qed
  have l: "fst (fm_forward fm (select_rows rs' x')) =
      Inr (Tensor [length rs', 1] (map (\<lambda>b. linear_row ?n (at2 (select_rows rs' x') b) (fm_linear fm)
                + interaction_row ?n ?k (at2 (select_rows rs' x') b) (at2 (v (second_order fm)))) [0..<length rs']))"
    by (rule fm_forward_value [OF assms(4) tshape_select_rows [OF assms(5)] wf_select_rows [OF assms(5)]])
  have r: "fst (fm_forward fm x') =
      Inr (Tensor [B', 1] (map (\<lambda>b. linear_row ?n (at2 x' b) (fm_linear fm)
                + interaction_row ?n ?k (at2 x' b) (at2 (v (second_order fm)))) [0..<B']))"
    by (rule fm_forward_value [OF assms(4) assms(5) assms(6)])
  show "fst (fm_forward fm (select_rows rs' x')) = map_sum id (select_rows rs') (fst (fm_forward fm x'))"
    by (simp only: l r meq map_sum.simps select_rows_column [OF assms(8)])
qed

theorem forward_rows_independent_witness:
  "soi_invariant (soi_init 2 2 [1, 2, 3, 4 :: rat])
   \<and> tshape (Tensor [2, 2] [1, 1, 2, 3 :: rat]) = [2, soi_n_features (soi_init 2 2 [1, 2, 3, 4 :: rat])]
   \<and> wf_tensor (Tensor [2, 2] [1, 1, 2, 3 :: rat])
   \<and> fm_invariant (fm_init 2 2 [10, 20] [1, 2, 3, 4 :: rat])
   \<and> tshape (Tensor [2, 2] [1, 1, 2, 3 :: rat]) = [2, fm_n_features (fm_init 2 2 [10, 20] [1, 2, 3, 4 :: rat])]
   \<and> list_all (\<lambda>r. r < 2) [1, 0 :: nat]
   \<and> list_all (\<lambda>r. r < 2) [1, 1, 0 :: nat]
   \<and> fst (soi_forward (soi_init 2 2 [1, 2, 3, 4 :: rat]) (select_rows [1, 0] (Tensor [2, 2] [1, 1, 2, 3])))
       = map_sum id (select_rows [1, 0]) (fst (soi_forward (soi_init 2 2 [1, 2, 3, 4 :: rat]) (Tensor [2, 2] [1, 1, 2, 3])))
   \<and> fst (fm_forward (fm_init 2 2 [10, 20] [1, 2, 3, 4 :: rat]) (select_rows [1, 1, 0] (Tensor [2, 2] [1, 1, 2, 3])))
       = map_sum id (select_rows [1, 1, 0]) (fst (fm_forward (fm_init 2 2 [10, 20] [1, 2, 3, 4 :: rat]) (Tensor [2, 2] [1, 1, 2, 3])))"
proof -
  have i: "soi_invariant (soi_init 2 2 [1, 2, 3, 4 :: rat])"
    by (simp add: soi_invariant_def soi_init_def wf_tensor_def)
  have s: "tshape (Tensor [2, 2] [1, 1, 2, 3 :: rat]) = [2, soi_n_features (soi_init 2 2 [1, 2, 3, 4 :: rat])]"
    by (simp add: soi_init_def)
  have w: "wf_tensor (Tensor [2, 2] [1, 1, 2, 3 :: rat])"
    by (simp add: wf_tensor_def)
  have i': "fm_invariant (fm_init 2 2 [10, 20] [1, 2, 3, 4 :: rat])"
    by (simp add: fm_invariant_def soi_invariant_def fm_init_def soi_init_def wf_tensor_def)
  have s': "tshape (Tensor [2, 2] [1, 1, 2, 3 :: rat]) = [2, fm_n_features (fm_init 2 2 [10, 20] [1, 2, 3, 4 :: rat])]"
    by (simp add: fm_init_def)
  have r: "list_all (\<lambda>r. r < 2) [1, 0 :: nat]" by simp
  have r': "list_all (\<lambda>r. r < 2) [1, 1, 0 :: nat]" by simp
  from forward_rows_independent [OF i s w i' s' w r r'] i s w i' s' r r' show ?thesis
    by (intro conjI) simp_all
qed

text \<open>
  Claim C3, as stated: for every embedding model and every supported rank of the index
  batch, the forward pass returns the dot product (plus the biases) of each pair, one per
  pair, in the shape of the index batch, for every n_factors of at least one. Two things
  go against it. With one factor, \<^verbatim>\<open>squeeze()\<close> removes the factor axis, and a batch of
  three pairs with the dot products 4, 10 and 18 comes back as their total 32: once for the
  model without bias, three times for the model with bias. And a batch of shape (1,) comes
  back without axes, since \<^verbatim>\<open>squeeze()\<close> removes the batch axis of size one as well.
\<close>

theorem embedding_forward_single_factor_counterexample:
  "mf_invariant (mf_init 3 3 1 True [1, 2, 3] [4, 5, 6 :: rat])
   \<and> smf_invariant (smf_init 3 3 1 True [1, 2, 3] [4, 5, 6 :: rat])
   \<and> ids_in_range 3 (Tensor [3] [0, 1, 2]) \<and> wf_tensor (Tensor [3] [0, 1, 2 :: int])
   \<and> dot_row 1 (Tensor [3, 1] [1, 2, 3 :: rat]) (Tensor [3, 1] [4, 5, 6]) 0 0 = 4
   \<and> dot_row 1 (Tensor [3, 1] [1, 2, 3 :: rat]) (Tensor [3, 1] [4, 5, 6]) 1 1 = 10
   \<and> dot_row 1 (Tensor [3, 1] [1, 2, 3 :: rat]) (Tensor [3, 1] [4, 5, 6]) 2 2 = 18
   \<and> fst (smf_forward (smf_init 3 3 1 True [1, 2, 3] [4, 5, 6 :: rat]) (Tensor [3] [0, 1, 2]) (Tensor [3] [0, 1, 2]))
       = Inr (Tensor [] [32])
   \<and> fst (mf_forward (mf_init 3 3 1 True [1, 2, 3] [4, 5, 6 :: rat]) (Tensor [3] [0, 1, 2]) (Tensor [3] [0, 1, 2]))
       = Inr (Tensor [3] [32, 32, 32])
   \<and> fst (smf_forward (smf_init 3 3 1 True [1, 2, 3] [4, 5, 6 :: rat]) (Tensor [3] [0, 1, 2]) (Tensor [3] [0, 1, 2]))
       \<noteq> Inr (Tensor [3] [4, 10, 18])
   \<and> fst (mf_forward (mf_init 3 3 1 True [1, 2, 3] [4, 5, 6 :: rat]) (Tensor [3] [0, 1, 2]) (Tensor [3] [0, 1, 2]))
       \<noteq> Inr (Tensor [3] [4, 10, 18])
   \<and> smf_invariant (smf_init 2 2 2 True [1, 2, 3, 4] [5, 6, 7, 8 :: rat])
   \<and> fst (smf_forward (smf_init 2 2 2 True [1, 2, 3, 4] [5, 6, 7, 8 :: rat]) (Tensor [1] [1]) (Tensor [1] [0]))
       = Inr (Tensor [] [39])
   \<and> fst (smf_forward (smf_init 2 2 2 True [1, 2, 3, 4] [5, 6, 7, 8 :: rat]) (Tensor [1] [1]) (Tensor [1] [0]))
       \<noteq> Inr (Tensor [1] [39])"
proof -
  have 1: "mf_invariant (mf_init 3 3 1 True [1, 2, 3] [4, 5, 6 :: rat])"
    by (simp add: mf_invariant_def mf_init_def wf_tensor_def)
  have 2: "smf_invariant (smf_init 3 3 1 True [1, 2, 3] [4, 5, 6 :: rat])"
    by (simp add: smf_invariant_def smf_init_def wf_tensor_def)
  have 3: "ids_in_range 3 (Tensor [3] [0, 1, 2]) \<and> wf_tensor (Tensor [3] [0, 1, 2 :: int])"
    by (simp add: ids_in_range_def wf_tensor_def)
  have 4: "dot_row 1 (Tensor [3, 1] [1, 2, 3 :: rat]) (Tensor [3, 1] [4, 5, 6]) 0 0 = 4
    \<and> dot_row 1 (Tensor [3, 1] [1, 2, 3 :: rat]) (Tensor [3, 1] [4, 5, 6]) 1 1 = 10
    \<and> dot_row 1 (Tensor [3, 1] [1, 2, 3 :: rat]) (Tensor [3, 1] [4, 5, 6]) 2 2 = 18"
    by code_simp
  have 5: "fst (smf_forward (smf_init 3 3 1 True [1, 2, 3] [4, 5, 6 :: rat]) (Tensor [3] [0, 1, 2]) (Tensor [3] [0, 1, 2]))
       = Inr (Tensor [] [32])"
    by code_simp
  have 6: "fst (mf_forward (mf_init 3 3 1 True [1, 2, 3] [4, 5, 6 :: rat]) (Tensor [3] [0, 1, 2]) (Tensor [3] [0, 1, 2]))
       = Inr (Tensor [3] [32, 32, 32])"
    by code_simp
  have 7: "smf_invariant (smf_init 2 2 2 True [1, 2, 3, 4] [5, 6, 7, 8 :: rat])"
    by (simp add: smf_invariant_def smf_init_def wf_tensor_def)
  have 8: "fst (smf_forward (smf_init 2 2 2 True [1, 2, 3, 4] [5, 6, 7, 8 :: rat]) (Tensor [1] [1]) (Tensor [1] [0]))
       = Inr (Tensor [] [39])"
    by code_simp
  show ?thesis
    unfolding 5 6 8 using 1 2 3 4 7 by simp
qed

text \<open>
  Claim C3, amended: for both embedding models, for index batches of one shape of rank at
  most two (a single pair, a batch, a batch of batches) with every id in its table, and for
  n_factors of at least two, the forward pass returns for each pair the dot product of the
  two factor rows, plus the two biases in the model with bias, one number per pair, in the
  shape of the index batch without its axes of size one. The same holds for a single pair
  with any n_factors. Batches of several pairs with one factor are left open.
\<close>

theorem embedding_forward_dot_products:
  fixes m :: "'a::{zero,plus,times} matrix_factorization_model"
    and sm :: "'a simple_matrix_factorization_model"
  assumes "mf_invariant m" and "smf_invariant sm"
    and "tshape user_ids = s" and "tshape item_ids = s" and "length s \<le> 2"
    and "wf_tensor user_ids" and "wf_tensor item_ids"
    and "ids_in_range (mf_n_users m) user_ids" and "ids_in_range (mf_n_items m) item_ids"
    and "ids_in_range (smf_n_users sm) user_ids" and "ids_in_range (smf_n_items sm) item_ids"
    and "2 \<le> mf_n_factors m \<or> prod_list s = 1"
    and "2 \<le> smf_n_factors sm \<or> prod_list s = 1"
  shows "fst (mf_forward m user_ids item_ids) =
           Inr (Tensor (filter (\<lambda>d. d \<noteq> 1) s)
             (map (\<lambda>p. (at2 (user_biases m) (nat (tdata user_ids ! p)) 0
                         + at2 (item_biases m) (nat (tdata item_ids ! p)) 0)
                        + dot_row (mf_n_factors m) (mf_x m) (mf_y m)
                            (nat (tdata user_ids ! p)) (nat (tdata item_ids ! p)))
                  [0..<prod_list s]))
       \<and> fst (smf_forward sm user_ids item_ids) =
           Inr (Tensor (filter (\<lambda>d. d \<noteq> 1) s)
             (map (\<lambda>p. dot_row (smf_n_factors sm) (smf_x sm) (smf_y sm)
                          (nat (tdata user_ids ! p)) (nat (tdata item_ids ! p)))
                  [0..<prod_list s]))"
  using mf_forward_value [OF assms(1,3,4,5,8,9,12)] smf_forward_value [OF assms(2,3,4,5,10,11,13)]
  by (rule conjI)

theorem embedding_forward_dot_products_witness:
  "mf_invariant ((mf_init 2 2 2 True [1, 2, 3, 4] [5, 6, 7, 8 :: rat])\<lparr>user_biases := Tensor [2, 1] [10, 20], item_biases := Tensor [2, 1] [100, 200]\<rparr>)
   \<and> smf_invariant (smf_init 2 2 2 True [1, 2, 3, 4] [5, 6, 7, 8 :: rat])
   \<and> length [1, 2 :: nat] \<le> 2
   \<and> wf_tensor (Tensor [1, 2] [0, 1 :: int]) \<and> wf_tensor (Tensor [1, 2] [1, 1 :: int])
   \<and> ids_in_range 2 (Tensor [1, 2] [0, 1]) \<and> ids_in_range 2 (Tensor [1, 2] [1, 1])
   \<and> fst (mf_forward ((mf_init 2 2 2 True [1, 2, 3, 4] [5, 6, 7, 8 :: rat])\<lparr>user_biases := Tensor [2, 1] [10, 20], item_biases := Tensor [2, 1] [100, 200]\<rparr>)
             (Tensor [1, 2] [0, 1]) (Tensor [1, 2] [1, 1]))
       = Inr (Tensor [2] [233, 273])
   \<and> fst (smf_forward (smf_init 2 2 2 True [1, 2, 3, 4] [5, 6, 7, 8 :: rat]) (Tensor [1, 2] [0, 1]) (Tensor [1, 2] [1, 1]))
       = Inr (Tensor [2] [23, 53])"
proof -
  let ?m = "(mf_init 2 2 2 True [1, 2, 3, 4] [5, 6, 7, 8 :: rat])\<lparr>user_biases := Tensor [2, 1] [10, 20], item_biases := Tensor [2, 1] [100, 200]\<rparr>"
  let ?sm = "smf_init 2 2 2 True [1, 2, 3, 4] [5, 6, 7, 8 :: rat]"
  let ?u = "Tensor [1, 2] [0, 1 :: int]" and ?i = "Tensor [1, 2] [1, 1 :: int]"
  have 1: "mf_invariant ?m"
    by (simp add: mf_invariant_def mf_init_def wf_tensor_def)
  have 2: "smf_invariant ?sm"
    by (simp add: smf_invariant_def smf_init_def wf_tensor_def)
  have 3: "tshape ?u = [1, 2]" and 4: "tshape ?i = [1, 2]" and 5: "length [1, 2 :: nat] \<le> 2"
    by simp_all
  have 6: "wf_tensor ?u" and 7: "wf_tensor ?i"
    by (simp_all add: wf_tensor_def)
  have 8: "ids_in_range (mf_n_users ?m) ?u" and 9: "ids_in_range (mf_n_items ?m) ?i"
    and 10: "ids_in_range (smf_n_users ?sm) ?u" and 11: "ids_in_range (smf_n_items ?sm) ?i"
    by (simp_all add: ids_in_range_def mf_init_def smf_init_def)
  have 12: "2 \<le> mf_n_factors ?m \<or> prod_list [1, 2 :: nat] = 1"
    and 13: "2 \<le> smf_n_factors ?sm \<or> prod_list [1, 2 :: nat] = 1"
    by (simp_all add: mf_init_def smf_init_def)
  have e1: "Tensor (filter (\<lambda>d. d \<noteq> 1) [1, 2])
             (map (\<lambda>p. (at2 (user_biases ?m) (nat (tdata ?u ! p)) 0 + at2 (item_biases ?m) (nat (tdata ?i ! p)) 0)
                        + dot_row (mf_n_factors ?m) (mf_x ?m) (mf_y ?m) (nat (tdata ?u ! p)) (nat (tdata ?i ! p)))
                  [0..<prod_list [1, 2]]) = Tensor [2] [233, 273]"
    by code_simp
  have e2: "Tensor (filter (\<lambda>d. d \<noteq> 1) [1, 2])
             (map (\<lambda>p. dot_row (smf_n_factors ?sm) (smf_x ?sm) (smf_y ?sm) (nat (tdata ?u ! p)) (nat (tdata ?i ! p)))
                  [0..<prod_list [1, 2]]) = Tensor [2] [23, 53]"
    by code_simp
  have r: "ids_in_range 2 ?u \<and> ids_in_range 2 ?i"
    by (simp add: ids_in_range_def)
  from embedding_forward_dot_products [OF 1 2 3 4 5 6 7 8 9 10 11 12 13] 1 2 5 6 7 r
  show ?thesis by (simp only: e1 e2 simp_thms)
qed

text \<open>
  Claim C4, as stated: when the gathered batch has rank greater than three, the forward pass
  of the embedding model falls through to the sum of the whole tensor. It does not: the
  first branch of the rank dispatch tests for a rank greater than two. For ids of shape
  (2, 2, 2) and two factors the gathered batch has rank four, the sum of the whole tensor
  would be 280, and the forward pass returns a tensor of shape (2, 2, 2).
\<close>

theorem embedding_forward_high_rank_counterexample:
  "length (tshape (squeeze (projr (embedding (smf_x (smf_init 2 2 2 True [1, 2, 3, 4] [5, 6, 7, 8 :: rat]))
      (Tensor [2, 2, 2] [0, 1, 1, 0, 0, 0, 1, 1]))))) = 4
   \<and> map_sum id sum_all
       (tmul (squeeze (projr (embedding (smf_x (smf_init 2 2 2 True [1, 2, 3, 4] [5, 6, 7, 8 :: rat]))
                (Tensor [2, 2, 2] [0, 1, 1, 0, 0, 0, 1, 1]))))
             (squeeze (projr (embedding (smf_y (smf_init 2 2 2 True [1, 2, 3, 4] [5, 6, 7, 8 :: rat]))
                (Tensor [2, 2, 2] [0, 1, 1, 0, 0, 0, 1, 1])))))
       = Inr (Tensor [] [280])
   \<and> fst (smf_forward (smf_init 2 2 2 True [1, 2, 3, 4] [5, 6, 7, 8 :: rat])
            (Tensor [2, 2, 2] [0, 1, 1, 0, 0, 0, 1, 1]) (Tensor [2, 2, 2] [0, 1, 1, 0, 0, 0, 1, 1]))
       = Inr (Tensor [2, 2, 2] [26, 44, 26, 44, 10, 24, 42, 64])
   \<and> fst (smf_forward (smf_init 2 2 2 True [1, 2, 3, 4] [5, 6, 7, 8 :: rat])
            (Tensor [2, 2, 2] [0, 1, 1, 0, 0, 0, 1, 1]) (Tensor [2, 2, 2] [0, 1, 1, 0, 0, 0, 1, 1]))
       \<noteq> Inr (Tensor [] [280])"
proof -
  have 1: "length (tshape (squeeze (projr (embedding (smf_x (smf_init 2 2 2 True [1, 2, 3, 4] [5, 6, 7, 8 :: rat]))
      (Tensor [2, 2, 2] [0, 1, 1, 0, 0, 0, 1, 1]))))) = 4"
    by code_simp
  have 2: "map_sum id sum_all
       (tmul (squeeze (projr (embedding (smf_x (smf_init 2 2 2 True [1, 2, 3, 4] [5, 6, 7, 8 :: rat]))
                (Tensor [2, 2, 2] [0, 1, 1, 0, 0, 0, 1, 1]))))
             (squeeze (projr (embedding (smf_y (smf_init 2 2 2 True [1, 2, 3, 4] [5, 6, 7, 8 :: rat]))
                (Tensor [2, 2, 2] [0, 1, 1, 0, 0, 0, 1, 1])))))
       = Inr (Tensor [] [280])"
    by code_simp
  have 3: "fst (smf_forward (smf_init 2 2 2 True [1, 2, 3, 4] [5, 6, 7, 8 :: rat])
            (Tensor [2, 2, 2] [0, 1, 1, 0, 0, 0, 1, 1]) (Tensor [2, 2, 2] [0, 1, 1, 0, 0, 0, 1, 1]))
       = Inr (Tensor [2, 2, 2] [26, 44, 26, 44, 10, 24, 42, 64])"
    by code_simp
  show ?thesis
    unfolding 1 2 3 by simp
qed

text \<open>
  Claim C4, amended: when the gathered batch, after \<^verbatim>\<open>squeeze()\<close>, has rank greater
  than three, the forward pass of both embedding models takes the first branch of the rank
  dispatch and sums along axis 2, which is then not the factor axis; no meaning is attached
  to the result.
\<close>

theorem embedding_forward_high_rank_sums_axis_2:
  fixes m :: "'a::{zero,plus,times} matrix_factorization_model"
    and sm :: "'a simple_matrix_factorization_model"
  assumes "embedding (smf_x sm) user_ids = Inr xu" and "embedding (smf_y sm) item_ids = Inr yi"
    and "3 < length (tshape (squeeze xu))"
    and "embedding (mf_x m) user_ids = Inr xu'" and "embedding (mf_y m) item_ids = Inr yi'"
    and "3 < length (tshape (squeeze xu'))"
  shows "fst (smf_forward sm user_ids item_ids) = bind_err (tmul (squeeze xu) (squeeze yi)) (sum_dim 2)
       \<and> fst (mf_forward m user_ids item_ids) =
           bind_err (embedding (user_biases m) user_ids) (\<lambda>ub.
           bind_err (embedding (item_biases m) item_ids) (\<lambda>ib.
           bind_err (tadd (squeeze ub) (squeeze ib)) (\<lambda>biases_sum.
           bind_err (bind_err (tmul (squeeze xu') (squeeze yi')) (sum_dim 2)) (\<lambda>dot.
           tadd biases_sum dot))))"
  using assms(3,6)
  by (simp add: smf_forward_def mf_forward_def assms(1,2,4,5) bind_err_def Let_def)

theorem embedding_forward_high_rank_sums_axis_2_witness:
  "embedding (smf_x (smf_init 2 2 2 True [1, 2, 3, 4] [5, 6, 7, 8 :: rat])) (Tensor [2, 2, 2] [0, 1, 1, 0, 0, 0, 1, 1])
     = Inr (Tensor [2, 2, 2, 2] [1, 2, 3, 4, 3, 4, 1, 2, 1, 2, 1, 2, 3, 4, 3, 4])
   \<and> embedding (smf_y (smf_init 2 2 2 True [1, 2, 3, 4] [5, 6, 7, 8 :: rat])) (Tensor [2, 2, 2] [0, 1, 1, 0, 0, 0, 1, 1])
     = Inr (Tensor [2, 2, 2, 2] [5, 6, 7, 8, 7, 8, 5, 6, 5, 6, 5, 6, 7, 8, 7, 8])
   \<and> 3 < length (tshape (squeeze (Tensor [2, 2, 2, 2] [1, 2, 3, 4, 3, 4, 1, 2, 1, 2, 1, 2, 3, 4, 3, 4 :: rat])))
   \<and> embedding (mf_x (mf_init 2 2 2 True [1, 2, 3, 4] [5, 6, 7, 8 :: rat])) (Tensor [2, 2, 2] [0, 1, 1, 0, 0, 0, 1, 1])
     = Inr (Tensor [2, 2, 2, 2] [1, 2, 3, 4, 3, 4, 1, 2, 1, 2, 1, 2, 3, 4, 3, 4])
   \<and> embedding (mf_y (mf_init 2 2 2 True [1, 2, 3, 4] [5, 6, 7, 8 :: rat])) (Tensor [2, 2, 2] [0, 1, 1, 0, 0, 0, 1, 1])
     = Inr (Tensor [2, 2, 2, 2] [5, 6, 7, 8, 7, 8, 5, 6, 5, 6, 5, 6, 7, 8, 7, 8])
   \<and> fst (smf_forward (smf_init 2 2 2 True [1, 2, 3, 4] [5, 6, 7, 8 :: rat])
            (Tensor [2, 2, 2] [0, 1, 1, 0, 0, 0, 1, 1]) (Tensor [2, 2, 2] [0, 1, 1, 0, 0, 0, 1, 1]))
       = bind_err (tmul (squeeze (Tensor [2, 2, 2, 2] [1, 2, 3, 4, 3, 4, 1, 2, 1, 2, 1, 2, 3, 4, 3, 4]))
                        (squeeze (Tensor [2, 2, 2, 2] [5, 6, 7, 8, 7, 8, 5, 6, 5, 6, 5, 6, 7, 8, 7, 8]))) (sum_dim 2)"
proof -
  let ?ids = "Tensor [2, 2, 2] [0, 1, 1, 0, 0, 0, 1, 1 :: int]"
  let ?XU = "Tensor [2, 2, 2, 2] [1, 2, 3, 4, 3, 4, 1, 2, 1, 2, 1, 2, 3, 4, 3, 4 :: rat]"
  let ?YI = "Tensor [2, 2, 2, 2] [5, 6, 7, 8, 7, 8, 5, 6, 5, 6, 5, 6, 7, 8, 7, 8 :: rat]"
  have 1: "embedding (smf_x (smf_init 2 2 2 True [1, 2, 3, 4] [5, 6, 7, 8 :: rat])) ?ids = Inr ?XU"
    by code_simp
  have 2: "embedding (smf_y (smf_init 2 2 2 True [1, 2, 3, 4] [5, 6, 7, 8 :: rat])) ?ids = Inr ?YI"
    by code_simp
  have 3: "3 < length (tshape (squeeze ?XU))"
    by (simp add: squeeze_def)
  have 4: "embedding (mf_x (mf_init 2 2 2 True [1, 2, 3, 4] [5, 6, 7, 8 :: rat])) ?ids = Inr ?XU"
    by code_simp
  have 5: "embedding (mf_y (mf_init 2 2 2 True [1, 2, 3, 4] [5, 6, 7, 8 :: rat])) ?ids = Inr ?YI"
    by code_simp
  from embedding_forward_high_rank_sums_axis_2 [OF 1 2 3 4 5 3, THEN conjunct1] 1 2 3 4 5
  show ?thesis by (intro conjI)
qed

text \<open>
  Claim C8: two embedding models with the same sizes and the same factor tables, one with
  biases that are all zero and one without biases, return equal outputs on every batch.
  The code does not do so with one factor: on the ids [0, 1] the model with bias returns a
  tensor of shape (2,) and the model without bias a tensor without axes; on ids of shape
  (2, 3) the model with bias raises and the model without bias returns a tensor.
\<close>

theorem zero_bias_models_disagree:
  "tdata (user_biases (mf_init 3 3 1 True [1, 2, 3] [4, 5, 6 :: rat])) = [0, 0, 0]
   \<and> tdata (item_biases (mf_init 3 3 1 True [1, 2, 3] [4, 5, 6 :: rat])) = [0, 0, 0]
   \<and> mf_x (mf_init 3 3 1 True [1, 2, 3] [4, 5, 6 :: rat]) = smf_x (smf_init 3 3 1 True [1, 2, 3] [4, 5, 6])
   \<and> mf_y (mf_init 3 3 1 True [1, 2, 3] [4, 5, 6 :: rat]) = smf_y (smf_init 3 3 1 True [1, 2, 3] [4, 5, 6])
   \<and> fst (mf_forward (mf_init 3 3 1 True [1, 2, 3] [4, 5, 6 :: rat]) (Tensor [2] [0, 1]) (Tensor [2] [0, 1]))
       = Inr (Tensor [2] [14, 14])
   \<and> fst (smf_forward (smf_init 3 3 1 True [1, 2, 3] [4, 5, 6 :: rat]) (Tensor [2] [0, 1]) (Tensor [2] [0, 1]))
       = Inr (Tensor [] [14])
   \<and> fst (mf_forward (mf_init 3 3 1 True [1, 2, 3] [4, 5, 6 :: rat]) (Tensor [2, 3] [0, 1, 2, 0, 1, 2]) (Tensor [2, 3] [0, 1, 2, 0, 1, 2]))
       = Inl RuntimeError
   \<and> fst (smf_forward (smf_init 3 3 1 True [1, 2, 3] [4, 5, 6 :: rat]) (Tensor [2, 3] [0, 1, 2, 0, 1, 2]) (Tensor [2, 3] [0, 1, 2, 0, 1, 2]))
       = Inr (Tensor [2] [32, 32])"
proof -
  have 1: "tdata (user_biases (mf_init 3 3 1 True [1, 2, 3] [4, 5, 6 :: rat])) = [0, 0, 0]
   \<and> tdata (item_biases (mf_init 3 3 1 True [1, 2, 3] [4, 5, 6 :: rat])) = [0, 0, 0]"
    by (simp add: mf_init_def numeral_3_eq_3)
  have 2: "mf_x (mf_init 3 3 1 True [1, 2, 3] [4, 5, 6 :: rat]) = smf_x (smf_init 3 3 1 True [1, 2, 3] [4, 5, 6])
   \<and> mf_y (mf_init 3 3 1 True [1, 2, 3] [4, 5, 6 :: rat]) = smf_y (smf_init 3 3 1 True [1, 2, 3] [4, 5, 6])"
    by (simp add: mf_init_def smf_init_def)
  have 3: "fst (mf_forward (mf_init 3 3 1 True [1, 2, 3] [4, 5, 6 :: rat]) (Tensor [2] [0, 1]) (Tensor [2] [0, 1]))
       = Inr (Tensor [2] [14, 14])"
    by code_simp
  have 4: "fst (smf_forward (smf_init 3 3 1 True [1, 2, 3] [4, 5, 6 :: rat]) (Tensor [2] [0, 1]) (Tensor [2] [0, 1]))
       = Inr (Tensor [] [14])"
    by code_simp
  have 5: "fst (mf_forward (mf_init 3 3 1 True [1, 2, 3] [4, 5, 6 :: rat]) (Tensor [2, 3] [0, 1, 2, 0, 1, 2]) (Tensor [2, 3] [0, 1, 2, 0, 1, 2]))
       = Inl RuntimeError"
    by code_simp
  have 6: "fst (smf_forward (smf_init 3 3 1 True [1, 2, 3] [4, 5, 6 :: rat]) (Tensor [2, 3] [0, 1, 2, 0, 1, 2]) (Tensor [2, 3] [0, 1, 2, 0, 1, 2]))
       = Inr (Tensor [2] [32, 32])"
    by code_simp
  from 1 2 3 4 5 6 show ?thesis by (intro conjI) simp_all
qed

end
